theory Spec2Isabelle
  imports Complex_Main "HOL-Library.Word"
begin

section \<open>JavaScript strings\<close>

text \<open>
  A JavaScript string is a sequence of 16-bit code units. The regular expressions of
  \<^verbatim>\<open>static/js/script.js\<close> carry no \<^verbatim>\<open>u\<close> flag, so they work on code
  units too. ASCII literals are written \<open>js ''...''\<close>; characters outside ASCII are
  given by their code units.
\<close>

type_synonym jschar = "16 word"
type_synonym jsstring = "jschar list"

definition js :: "string \<Rightarrow> jsstring" where
  "js s = map of_char s"

text \<open>
  The \<^verbatim>\<open>\s\<close> class of a regular expression, which is also what
  \<^verbatim>\<open>String.prototype.trim\<close> strips: WhiteSpace and LineTerminator of ECMAScript.
\<close>

definition is_whitespace :: "jschar \<Rightarrow> bool" where
  "is_whitespace c \<longleftrightarrow>
     c \<in> {9, 10, 11, 12, 13, 32, 160, 5760, 8232, 8233, 8239, 8287, 12288, 65279}
     \<or> (8192 \<le> c \<and> c \<le> 8202)"

text \<open>The characters that \<^verbatim>\<open>.\<close> does not match: LF, CR, LS, PS.\<close>

definition is_line_terminator :: "jschar \<Rightarrow> bool" where
  "is_line_terminator c \<longleftrightarrow> c \<in> {10, 13, 8232, 8233}"

definition trim :: "jsstring \<Rightarrow> jsstring" where
  "trim s = rev (dropWhile is_whitespace (rev (dropWhile is_whitespace s)))"

text \<open>\<^verbatim>\<open>s.includes(pat)\<close>\<close>

fun str_includes :: "jsstring \<Rightarrow> jsstring \<Rightarrow> bool" where
  "str_includes [] pat = (pat = [])"
| "str_includes (c # cs) pat = (take (length pat) (c # cs) = pat \<or> str_includes cs pat)"

text \<open>
  \<^verbatim>\<open>s.replace(/pat/g, rep)\<close> for a pattern of literal characters and a replacement
  without \<^verbatim>\<open>$\<close>: scan from the left, replace a match and go on after it.
\<close>

function replace_all :: "jsstring \<Rightarrow> jsstring \<Rightarrow> jsstring \<Rightarrow> jsstring" where
  "replace_all pat rep [] = []"
| "replace_all pat rep (c # cs) =
     (if pat \<noteq> [] \<and> take (length pat) (c # cs) = pat
      then rep @ replace_all pat rep (drop (length pat) (c # cs))
      else c # replace_all pat rep cs)"
  by pat_completeness auto
termination
  by (relation "measure (\<lambda>(pat, rep, s). length s)") auto

text \<open>
  \<^verbatim>\<open>/\*\*(.+?)\*\*/\<close> after its opening stars: the lazy group takes one character that
  is no line terminator, then as few more as it needs to reach two stars. The result
  is the group and the text after the closing stars.
\<close>

fun bold_group :: "jsstring \<Rightarrow> (jsstring \<times> jsstring) option" where
  "bold_group [] = None"
| "bold_group (c # cs) =
     (if is_line_terminator c then None
      else if take 2 cs = js ''**'' then Some ([c], drop 2 cs)
      else (case bold_group cs of
              None \<Rightarrow> None
            | Some (grp, rest) \<Rightarrow> Some (c # grp, rest)))"

text \<open>\<^verbatim>\<open>safe.replace(/\*\*(.+?)\*\*/g, '<strong>$1</strong>')\<close>\<close>

function replace_bold :: "jsstring \<Rightarrow> jsstring" where
  "replace_bold [] = []"
| "replace_bold (c # cs) =
     (if take 2 (c # cs) = js ''**''
      then (case bold_group (drop 2 (c # cs)) of
              Some (grp, rest) \<Rightarrow>
                js ''<strong>'' @ grp @ js ''</strong>'' @ replace_bold rest
            | None \<Rightarrow> c # replace_bold cs)
      else c # replace_bold cs)"
  by pat_completeness auto
termination
proof (relation "measure length")
  have shorter: "bold_group s = Some (grp, rest) \<Longrightarrow> length rest < length s"
    for s grp rest
  proof (induction s arbitrary: grp rest)
    case Nil
    then show ?case by simp
  next
    case (Cons c cs)
    then show ?case
      by (fastforce split: if_splits option.splits)
  qed
  fix c :: jschar and cs x2 grp rest
  assume "bold_group (drop 2 (c # cs)) = Some x2" and "(grp, rest) = x2"
  then have "length rest < length (drop 2 (c # cs))"
    using shorter [of "drop 2 (c # cs)" grp rest] by simp
  then show "(rest, c # cs) \<in> measure length" by simp
qed auto

text \<open>
  \<^verbatim>\<open>/(https?:\/\/[^\s<]+)/\<close> at the head of a string: the length of the scheme
  \<^verbatim>\<open>https?://\<close>, when it is there.
\<close>

definition url_scheme :: "jsstring \<Rightarrow> nat option" where
  "url_scheme s =
     (if take 8 s = js ''https://'' then Some 8
      else if take 7 s = js ''http://'' then Some 7
      else None)"

definition url_char :: "jschar \<Rightarrow> bool" where
  "url_char c \<longleftrightarrow> \<not> is_whitespace c \<and> c \<noteq> 60"

text \<open>
  \<^verbatim>\<open>safe.replace(/(https?:\/\/[^\s<]+)/g, '<a href="$1" target="_blank" rel="noopener noreferrer">$1</a>')\<close>
\<close>

function replace_links :: "jsstring \<Rightarrow> jsstring" where
  "replace_links [] = []"
| "replace_links (c # cs) =
     (case url_scheme (c # cs) of
        None \<Rightarrow> c # replace_links cs
      | Some n \<Rightarrow>
          (if takeWhile url_char (drop n (c # cs)) = [] then c # replace_links cs
           else js ''<a href=\"''
                @ take n (c # cs) @ takeWhile url_char (drop n (c # cs))
                @ js ''\" target=\"_blank\" rel=\"noopener noreferrer\">''
                @ take n (c # cs) @ takeWhile url_char (drop n (c # cs))
                @ js ''</a>''
                @ replace_links
                    (drop (n + length (takeWhile url_char (drop n (c # cs)))) (c # cs))))"
  by pat_completeness auto
termination
  by (relation "measure length") (auto simp: url_scheme_def split: if_splits)

section \<open>JavaScript values\<close>

text \<open>
  A Number is a double: a finite value, an infinity or NaN. Every finite double is a
  rational, so finite values are modelled as \<^typ>\<open>rat\<close>, a superset of the doubles.
  The two zeros are one value here: the code reads a zero only through truthiness,
  \<^verbatim>\<open>===\<close>, \<^verbatim>\<open><\<close>, \<^verbatim>\<open>toFixed\<close> and conversion to a string, which do not tell
  them apart.
\<close>

datatype jsnum = Fin rat | PosInf | NegInf | NaN

text \<open>
  What \<^verbatim>\<open>JSON.parse\<close> returns, and \<^verbatim>\<open>undefined\<close> for a missing property. An
  object is the list of its own properties, read with \<^const>\<open>map_of\<close>.
\<close>

datatype jsval =
    JUndefined
  | JNull
  | JBool bool
  | JNum jsnum
  | JStr jsstring
  | JArr "jsval list"
  | JObj "(jsstring \<times> jsval) list"

datatype error = TypeError

text \<open>
  The built-ins of the platform that depend on the binary representation of doubles or
  on the Unicode tables are parameters of the model:
  \<^item> \<open>number_toString\<close>: Number::toString of a finite value that is not an integer
    below \<open>2 ^ 53\<close> in magnitude (the shortest digits that read back as the same double);
  \<^item> \<open>string_toNumber\<close>: StringToNumber, which rounds a numeric literal to a double;
  \<^item> \<open>toLowerCase\<close>: \<^verbatim>\<open>String.prototype.toLowerCase\<close>.
\<close>

record platform =
  number_toString :: "rat \<Rightarrow> jsstring"
  string_toNumber :: "jsstring \<Rightarrow> jsnum"
  toLowerCase :: "jsstring \<Rightarrow> jsstring"

text \<open>The decimal digits of a natural number.\<close>

fun digits :: "nat \<Rightarrow> jsstring" where
  "digits n =
     (if n < 10 then [of_nat (48 + n)]
      else digits (n div 10) @ [of_nat (48 + n mod 10)])"

declare digits.simps [simp del]

definition int_toString :: "int \<Rightarrow> jsstring" where
  "int_toString i = (if i < 0 then js ''-'' @ digits (nat (- i)) else digits (nat i))"

text \<open>Number::toString in radix 10.\<close>

definition Number_toString :: "platform \<Rightarrow> jsnum \<Rightarrow> jsstring" where
  "Number_toString P n =
     (case n of
        NaN \<Rightarrow> js ''NaN''
      | PosInf \<Rightarrow> js ''Infinity''
      | NegInf \<Rightarrow> js ''-Infinity''
      | Fin q \<Rightarrow>
          (if of_int \<lfloor>q\<rfloor> = q \<and> \<bar>q\<bar> < 2 ^ 53 then int_toString \<lfloor>q\<rfloor>
           else number_toString P q))"

text \<open>
  \<^verbatim>\<open>Number.prototype.toFixed(2)\<close>: a value that is not finite, or is \<open>10 ^ 21\<close> or
  more in magnitude, is converted as by Number::toString; otherwise \<open>n\<close> is the integer
  nearest to \<open>100 * x\<close>, the larger one of two, written with at least three digits and
  a point before the last two.
\<close>

definition toFixed2 :: "platform \<Rightarrow> jsnum \<Rightarrow> jsstring" where
  "toFixed2 P n =
     (case n of
        Fin q \<Rightarrow>
          (let s = (if q < 0 then js ''-'' else []);
               x = \<bar>q\<bar>
           in if x \<ge> 10 ^ 21 then s @ Number_toString P (Fin x)
              else (let m = nat \<lfloor>x * 100 + 1 / 2\<rfloor>
                    in s @ digits (m div 100) @ js ''.''
                         @ [of_nat (48 + m div 10 mod 10), of_nat (48 + m mod 10)]))
      | _ \<Rightarrow> Number_toString P n)"

text \<open>ToBoolean.\<close>

fun truthy :: "jsval \<Rightarrow> bool" where
  "truthy JUndefined = False"
| "truthy JNull = False"
| "truthy (JBool b) = b"
| "truthy (JNum n) = (n \<noteq> Fin 0 \<and> n \<noteq> NaN)"
| "truthy (JStr s) = (s \<noteq> [])"
| "truthy (JArr xs) = True"
| "truthy (JObj kvs) = True"

text \<open>\<^verbatim>\<open>a || b\<close>\<close>

definition or_else :: "jsval \<Rightarrow> jsval \<Rightarrow> jsval" where
  "or_else a b = (if truthy a then a else b)"

text \<open>A parameter with a default value: \<^verbatim>\<open>f(x = d)\<close>.\<close>

definition default_arg :: "jsval \<Rightarrow> jsval \<Rightarrow> jsval" where
  "default_arg x d = (if x = JUndefined then d else x)"

text \<open>
  \<^verbatim>\<open>v.name\<close>, for a name that no prototype defines (all the property names of this
  file but \<^verbatim>\<open>length\<close>): a TypeError on \<^verbatim>\<open>undefined\<close> and \<^verbatim>\<open>null\<close>, the own
  property of an object, \<^verbatim>\<open>undefined\<close> otherwise.
\<close>

fun get_prop :: "jsval \<Rightarrow> string \<Rightarrow> error + jsval" where
  "get_prop JUndefined name = Inl TypeError"
| "get_prop JNull name = Inl TypeError"
| "get_prop (JObj kvs) name =
     Inr (case map_of kvs (js name) of Some v \<Rightarrow> v | None \<Rightarrow> JUndefined)"
| "get_prop v name = Inr JUndefined"

text \<open>
  ToString, as \<^verbatim>\<open>String(v)\<close> and a template literal apply it. An array is joined
  with commas, \<^verbatim>\<open>null\<close> and \<^verbatim>\<open>undefined\<close> elements as empty strings. A parsed
  object has the methods of \<^verbatim>\<open>Object.prototype\<close>, unless an own property of the same
  name hides them; a property read from JSON is never callable, so an own
  \<^verbatim>\<open>toString\<close> leaves ToPrimitive without a method that returns a primitive
  (\<^verbatim>\<open>Object.prototype.valueOf\<close> returns the object), and it throws a TypeError.
\<close>

fun ToString :: "platform \<Rightarrow> jsval \<Rightarrow> error + jsstring"
  and join_comma :: "platform \<Rightarrow> jsval list \<Rightarrow> error + jsstring" where
  "ToString P JUndefined = Inr (js ''undefined'')"
| "ToString P JNull = Inr (js ''null'')"
| "ToString P (JBool b) = Inr (if b then js ''true'' else js ''false'')"
| "ToString P (JNum n) = Inr (Number_toString P n)"
| "ToString P (JStr s) = Inr s"
| "ToString P (JArr xs) = join_comma P xs"
| "ToString P (JObj kvs) =
     (if map_of kvs (js ''toString'') \<noteq> None then Inl TypeError
      else Inr (js ''[object Object]''))"
| "join_comma P [] = Inr []"
| "join_comma P (x # xs) =
     (case (if x = JUndefined \<or> x = JNull then Inr [] else ToString P x) of
        Inl e \<Rightarrow> Inl e
      | Inr s \<Rightarrow>
          (if xs = [] then Inr s
           else (case join_comma P xs of
                   Inl e \<Rightarrow> Inl e
                 | Inr r \<Rightarrow> Inr (s @ js '','' @ r))))"

text \<open>
  ToNumber, as \<^verbatim>\<open>Number(v)\<close> and \<^verbatim>\<open><\<close> apply it. An array or an object goes
  through ToPrimitive first, which gives the same string as ToString does (with the
  hint \<^verbatim>\<open>number\<close>, \<^verbatim>\<open>valueOf\<close> is tried first and returns the object itself).
\<close>

definition ToNumber :: "platform \<Rightarrow> jsval \<Rightarrow> error + jsnum" where
  "ToNumber P v =
     (case v of
        JUndefined \<Rightarrow> Inr NaN
      | JNull \<Rightarrow> Inr (Fin 0)
      | JBool b \<Rightarrow> Inr (Fin (if b then 1 else 0))
      | JNum n \<Rightarrow> Inr n
      | JStr s \<Rightarrow> Inr (string_toNumber P s)
      | _ \<Rightarrow> (case ToString P v of
                Inl e \<Rightarrow> Inl e
              | Inr s \<Rightarrow> Inr (string_toNumber P s)))"

text \<open>\<^verbatim>\<open>a < b\<close> on two Numbers: false when either is NaN.\<close>

fun num_less :: "jsnum \<Rightarrow> jsnum \<Rightarrow> bool" where
  "num_less NaN b = False"
| "num_less a NaN = False"
| "num_less (Fin a) (Fin b) = (a < b)"
| "num_less (Fin a) PosInf = True"
| "num_less (Fin a) NegInf = False"
| "num_less PosInf b = False"
| "num_less NegInf NegInf = False"
| "num_less NegInf b = True"

section \<open>The page and the chat object\<close>

text \<open>
  An element as the code builds it: tag, id, class name, inline style, the string
  assigned to \<^verbatim>\<open>innerHTML\<close> (kept as assigned, not parsed), the children appended and,
  for a suggestion chip, the label its click handler sends.
\<close>

datatype node =
  Node (tag: string) (node_id: string) (className: string) (cssText: string)
       (innerHTML: jsstring) (children: "node list") (click_label: "jsstring option")

text \<open>One call of \<^verbatim>\<open>fetch\<close>: the URL, the method, the headers and the two fields of the
  payload that \<^verbatim>\<open>JSON.stringify\<close> serialises into the body.\<close>

record request =
  req_url :: jsstring
  req_method :: string
  req_headers :: "(string \<times> string) list"
  body_message :: jsstring
  body_sessionId :: jsstring

text \<open>
  The fields of \<^verbatim>\<open>IMOBOTChat\<close> and what it reaches in the page: the children of the
  messages container, the value of the input, the disabled flag of the send button,
  the toasts appended to the body and the requests issued so far.
\<close>

record chat =
  endpoint :: jsstring
  sessionId :: jsstring
  messageCount :: nat
  partsFound :: nat
  isTyping :: bool
  messages :: "node list"
  inputValue :: jsstring
  sendDisabled :: bool
  toasts :: "(jsstring \<times> string) list"
  requests :: "request list"

text \<open>How a method ends: it returns, or it throws. The state is the one reached.\<close>

datatype completion = Returns | Throws error

definition and_then ::
  "chat \<times> completion \<Rightarrow> (chat \<Rightarrow> chat \<times> completion) \<Rightarrow> chat \<times> completion" where
  "and_then r f = (case r of (st, Returns) \<Rightarrow> f st | (st, Throws e) \<Rightarrow> (st, Throws e))"

text \<open>\<^verbatim>\<open>BASE_URL\<close> and \<^verbatim>\<open>CHAT_ENDPOINT\<close>, from \<^verbatim>\<open>location.hostname\<close>.\<close>

definition BASE_URL :: "jsstring \<Rightarrow> jsstring" where
  "BASE_URL host =
     (if host = js ''localhost'' \<or> host = js ''127.0.0.1'' then js ''http://127.0.0.1:5000''
      else js ''https://your-production-server.com'')"

definition CHAT_ENDPOINT :: "jsstring \<Rightarrow> jsstring" where
  "CHAT_ENDPOINT host = BASE_URL host @ js ''/api/chat''"

subsection \<open>Escaping and formatting\<close>

text \<open>\<^verbatim>\<open>_escapeHtml(s = '')\<close>\<close>

definition escapeHtml :: "platform \<Rightarrow> jsval \<Rightarrow> error + jsstring" where
  "escapeHtml P s =
     (case ToString P (default_arg s (JStr [])) of
        Inl e \<Rightarrow> Inl e
      | Inr str \<Rightarrow>
          Inr (replace_all (js [CHR 39]) (js ''&#039;'')
              (replace_all (js ''\"'') (js ''&quot;'')
              (replace_all (js ''>'') (js ''&gt;'')
              (replace_all (js ''<'') (js ''&lt;'')
              (replace_all (js ''&'') (js ''&amp;'') str))))))"

text \<open>The glyphs that \<^verbatim>\<open>_formatMessage\<close> wraps, in its order, as code units.\<close>

definition emojis :: "jsstring list" where
  "emojis =
     [[55357, 56983], [55357, 56985], [55357, 56615], [55357, 56523], [55357, 56550],
      [9989], [10060], [9888, 65039], [55357, 56496], [55357, 56522], [55357, 56561],
      [55357, 56551], [55356, 57225], [10024]]"

definition wrap_emoji :: "jsstring \<Rightarrow> jsstring \<Rightarrow> jsstring" where
  "wrap_emoji safe e =
     replace_all e (js ''<span style=\"font-size: 1.2em;\">'' @ e @ js ''</span>'') safe"

text \<open>\<^verbatim>\<open>_formatMessage(content = '')\<close>\<close>

definition formatMessage :: "platform \<Rightarrow> jsval \<Rightarrow> error + jsstring" where
  "formatMessage P content =
     (case escapeHtml P (default_arg content (JStr [])) of
        Inl e \<Rightarrow> Inl e
      | Inr safe0 \<Rightarrow>
          (let safe1 = replace_bold safe0;
               safe2 = replace_all (js ''\<newline>'') (js ''<br>'') safe1;
               safe3 = replace_links safe2
           in Inr (foldl wrap_emoji safe3 emojis)))"

subsection \<open>Messages, the typing indicator, toasts\<close>

text \<open>\<^verbatim>\<open>_createMessageElement(role, htmlContent)\<close>\<close>

definition createMessageElement :: "string \<Rightarrow> jsstring \<Rightarrow> node" where
  "createMessageElement role htmlContent =
     Node ''div'' [] (''message '' @ role) [] []
       [Node ''div'' [] ''message-avatar'' [] []
          [Node ''i'' [] (if role = ''bot'' then ''fas fa-robot'' else ''fas fa-user'')
             [] [] [] None]
          None,
        Node ''div'' [] ''message-content'' [] htmlContent [] None]
       None"

text \<open>\<^verbatim>\<open>_addMessage(role, text)\<close>; scrolling is not part of the state.\<close>

definition addMessage :: "platform \<Rightarrow> string \<Rightarrow> jsval \<Rightarrow> chat \<Rightarrow> chat \<times> completion" where
  "addMessage P role text st =
     (case formatMessage P (or_else text (JStr [])) of
        Inl e \<Rightarrow> (st, Throws e)
      | Inr formatted \<Rightarrow>
          (st\<lparr>messages := messages st @ [createMessageElement role formatted]\<rparr>, Returns))"

definition typing_html :: jsstring where
  "typing_html = js
''
            <div class=\"message-avatar\" style=\"background: linear-gradient(135deg, var(--primary), var(--primary-light)); color: white;\">
                <i class=\"fas fa-robot\"></i>
            </div>
            <div style=\"display: flex; align-items: center; gap: 8px;\">
                <span>IMOBOT is thinking</span>
                <div class=\"typing-dots\">
                    <div class=\"dot\"></div>
                    <div class=\"dot\"></div>
                    <div class=\"dot\"></div>
                </div>
            </div>
        ''"

text \<open>\<^verbatim>\<open>_showTyping()\<close>\<close>

definition showTyping :: "chat \<Rightarrow> chat" where
  "showTyping st =
     (if isTyping st then st
      else st\<lparr>isTyping := True, sendDisabled := True,
              messages := messages st
                @ [Node ''div'' ''typing-indicator'' ''typing-indicator'' [] typing_html [] None]\<rparr>)"

text \<open>
  \<^verbatim>\<open>document.getElementById('typing-indicator')\<close> followed by \<^verbatim>\<open>remove()\<close>: the
  first element with that id goes. Only the children of the messages container are
  searched: the strings assigned to \<^verbatim>\<open>innerHTML\<close> are not parsed here.
\<close>

fun remove_typing :: "node list \<Rightarrow> node list" where
  "remove_typing [] = []"
| "remove_typing (x # xs) =
     (if node_id x = ''typing-indicator'' then xs else x # remove_typing xs)"

text \<open>\<^verbatim>\<open>_hideTyping()\<close>\<close>

definition hideTyping :: "chat \<Rightarrow> chat" where
  "hideTyping st =
     st\<lparr>isTyping := False, sendDisabled := False, messages := remove_typing (messages st)\<rparr>"

text \<open>\<^verbatim>\<open>_showToast(message, type = 'info', ms = 4000)\<close>; the timers that take the toast
  away again are not modelled.\<close>

definition showToast :: "jsstring \<Rightarrow> string \<Rightarrow> chat \<Rightarrow> chat" where
  "showToast message type st = st\<lparr>toasts := toasts st @ [(message, type)]\<rparr>"

section \<open>Rendering a response\<close>

text \<open>Sequencing of steps that may throw.\<close>

definition bindE :: "error + 'a \<Rightarrow> ('a \<Rightarrow> error + 'b) \<Rightarrow> error + 'b" where
  "bindE r f = (case r of Inl e \<Rightarrow> Inl e | Inr v \<Rightarrow> f v)"

subsection \<open>Part cards\<close>

text \<open>
  The constants of the callback in \<^verbatim>\<open>_displayParts\<close>:
  \<^verbatim>\<open>price = p.sales_price ? `${Number(p.sales_price).toFixed(2)} DZD` : 'Price on request'\<close>,
  \<^verbatim>\<open>stock = p.quantity_on_hand || 0\<close>,
  \<^verbatim>\<open>stockClass = stock === 0 ? 'out' : (stock < 5 ? 'low' : '')\<close>,
  \<^verbatim>\<open>stockText = stock === 0 ? 'Out of stock' : `${stock} units available`\<close>.
\<close>

definition part_price :: "platform \<Rightarrow> jsval \<Rightarrow> error + jsstring" where
  "part_price P sales_price =
     (if truthy sales_price
      then bindE (ToNumber P sales_price) (\<lambda>n. Inr (toFixed2 P n @ js '' DZD''))
      else Inr (js ''Price on request''))"

definition part_stock :: "jsval \<Rightarrow> jsval" where
  "part_stock quantity_on_hand = or_else quantity_on_hand (JNum (Fin 0))"

definition part_stockClass :: "platform \<Rightarrow> jsval \<Rightarrow> error + jsstring" where
  "part_stockClass P stock =
     (if stock = JNum (Fin 0) then Inr (js ''out'')
      else bindE (ToNumber P stock)
             (\<lambda>n. Inr (if num_less n (Fin 5) then js ''low'' else [])))"

definition part_stockText :: "platform \<Rightarrow> jsval \<Rightarrow> error + jsstring" where
  "part_stockText P stock =
     (if stock = JNum (Fin 0) then Inr (js ''Out of stock'')
      else bindE (ToString P stock) (\<lambda>s. Inr (s @ js '' units available'')))"

text \<open>The template literal assigned to \<^verbatim>\<open>card.innerHTML\<close>.\<close>

definition card_html ::
  "jsstring \<Rightarrow> jsstring \<Rightarrow> jsstring \<Rightarrow> jsstring \<Rightarrow> jsstring \<Rightarrow> jsstring \<Rightarrow> jsstring" where
  "card_html partName reference description price stockClass stockText =
     js ''\<newline>                <div class=\"part-name\">'' @ partName
     @ js ''</div>\<newline>                <div class=\"part-details\">\<newline>                    ''
     @ (if reference \<noteq> []
        then js ''<div><i class=\"fas fa-barcode\"></i> '' @ reference @ js ''</div>''
        else [])
     @ js ''\<newline>                    ''
     @ (if description \<noteq> []
        then js ''<div style=\"grid-column: 1/-1;\"><i class=\"fas fa-info-circle\"></i> ''
             @ description @ js ''</div>''
        else [])
     @ js ''\<newline>                    <div class=\"part-price\"><i class=\"fas fa-money-bill\"></i> ''
     @ price
     @ js ''</div>\<newline>                    <div class=\"part-stock '' @ stockClass
     @ js ''\"><i class=\"fas fa-boxes\"></i> '' @ stockText
     @ js ''</div>\<newline>                </div>\<newline>            ''"

text \<open>The callback of \<^verbatim>\<open>parts.slice(0, 3).forEach\<close>, up to the card it appends.\<close>

definition part_card :: "platform \<Rightarrow> jsval \<Rightarrow> error + node" where
  "part_card P p =
     bindE (get_prop p ''sales_price'') (\<lambda>sales_price.
     bindE (part_price P sales_price) (\<lambda>price.
     bindE (get_prop p ''quantity_on_hand'') (\<lambda>quantity_on_hand.
     bindE (part_stockClass P (part_stock quantity_on_hand)) (\<lambda>stockClass.
     bindE (part_stockText P (part_stock quantity_on_hand)) (\<lambda>stockText.
     bindE (get_prop p ''product_name'') (\<lambda>product_name.
     bindE (escapeHtml P (or_else product_name (JStr (js ''Spare Part'')))) (\<lambda>partName.
     bindE (get_prop p ''internal_reference'') (\<lambda>internal_reference.
     bindE (escapeHtml P (or_else internal_reference (JStr []))) (\<lambda>reference.
     bindE (get_prop p ''product_description'') (\<lambda>product_description.
     bindE (escapeHtml P (or_else product_description (JStr []))) (\<lambda>description.
     Inr (Node ''div'' [] ''part-card'' []
            (card_html partName reference description price stockClass stockText)
            [] None))))))))))))"

text \<open>The loop: the cards in the order of the array, or the first exception.\<close>

fun part_cards :: "platform \<Rightarrow> jsval list \<Rightarrow> error + node list" where
  "part_cards P [] = Inr []"
| "part_cards P (p # ps) =
     bindE (part_card P p) (\<lambda>card.
     bindE (part_cards P ps) (\<lambda>cards. Inr (card # cards)))"

text \<open>The notice appended when \<^verbatim>\<open>parts.length > 3\<close>; \<open>k\<close> is \<^verbatim>\<open>parts.length - 3\<close>.\<close>

definition more_results :: "nat \<Rightarrow> node" where
  "more_results k =
     Node ''div'' [] []
       ''text-align: center; padding: 12px; color: var(--text-secondary); font-weight: 600;''
       (js ''<i class=\"fas fa-plus-circle\"></i> '' @ digits k @ js '' more results available'')
       [] None"

text \<open>
  \<^verbatim>\<open>_displayParts(parts = [])\<close>. The container reaches the page only after the loop,
  so an exception in the loop leaves the state as it was. On a value that is no array,
  \<^verbatim>\<open>parts.length\<close> is the length of a string, the own property of an object and
  \<^verbatim>\<open>undefined\<close> otherwise; when it is truthy, \<^verbatim>\<open>parts.slice(0, 3).forEach\<close> is a
  call of something that is no function.
\<close>

definition displayParts :: "platform \<Rightarrow> jsval \<Rightarrow> chat \<Rightarrow> chat \<times> completion" where
  "displayParts P parts st =
     (case default_arg parts (JArr []) of
        JArr xs \<Rightarrow>
          (if xs = [] then (st, Returns)
           else (case part_cards P (take 3 xs) of
                   Inl e \<Rightarrow> (st, Throws e)
                 | Inr cards \<Rightarrow>
                     (st\<lparr>messages := messages st
                          @ [Node ''div'' [] ''parts-list'' [] []
                               (cards @ (if length xs > 3 then [more_results (length xs - 3)]
                                         else []))
                               None]\<rparr>,
                      Returns)))
      | JStr s \<Rightarrow> (if s = [] then (st, Returns) else (st, Throws TypeError))
      | JObj kvs \<Rightarrow>
          (case map_of kvs (js ''length'') of
             None \<Rightarrow> (st, Returns)
           | Some n \<Rightarrow> (if truthy n then (st, Throws TypeError) else (st, Returns)))
      | JNull \<Rightarrow> (st, Throws TypeError)
      | _ \<Rightarrow> (st, Returns))"

subsection \<open>Suggestion chips\<close>

text \<open>The chain that picks the icon; \<open>l\<close> is \<^verbatim>\<open>label.toLowerCase()\<close>.\<close>

definition suggestion_icon :: "jsstring \<Rightarrow> string" where
  "suggestion_icon l =
     (if str_includes l (js ''search'') then ''fas fa-search''
      else if str_includes l (js ''track'') then ''fas fa-truck''
      else if str_includes l (js ''report'') then ''fas fa-chart-line''
      else if str_includes l (js ''yes'') then ''fas fa-check''
      else if str_includes l (js ''no'') then ''fas fa-times''
      else if str_includes l (js ''skip'') then ''fas fa-forward''
      else if str_includes l (js ''order'') then ''fas fa-shopping-cart''
      else if str_includes l (js ''continue'') then ''fas fa-arrow-right''
      else if str_includes l (js ''reference'') then ''fas fa-barcode''
      else if str_includes l (js ''part'') then ''fas fa-cog''
      else ''fas fa-lightbulb'')"

text \<open>
  The callback of \<^verbatim>\<open>list.forEach\<close>. Only a string has a \<^verbatim>\<open>toLowerCase\<close> method:
  on any other label the call throws a TypeError.
\<close>

definition suggestion_button :: "platform \<Rightarrow> jsval \<Rightarrow> error + node" where
  "suggestion_button P label =
     (case label of
        JStr l \<Rightarrow>
          Inr (Node ''button'' [] ''suggestion-btn'' []
                 (js ''<i class=\"'' @ js (suggestion_icon (toLowerCase P l)) @ js ''\"></i> '' @ l)
                 [] (Some l))
      | _ \<Rightarrow> Inl TypeError)"

fun suggestion_buttons :: "platform \<Rightarrow> jsval list \<Rightarrow> error + node list" where
  "suggestion_buttons P [] = Inr []"
| "suggestion_buttons P (label # labels) =
     bindE (suggestion_button P label) (\<lambda>btn.
     bindE (suggestion_buttons P labels) (\<lambda>btns. Inr (btn # btns)))"

text \<open>\<^verbatim>\<open>_renderSuggestions(list = [])\<close>\<close>

definition renderSuggestions :: "platform \<Rightarrow> jsval \<Rightarrow> chat \<Rightarrow> chat \<times> completion" where
  "renderSuggestions P list st =
     (case default_arg list (JArr []) of
        JArr xs \<Rightarrow>
          (if xs = [] then (st, Returns)
           else (case suggestion_buttons P xs of
                   Inl e \<Rightarrow> (st, Throws e)
                 | Inr btns \<Rightarrow>
                     (st\<lparr>messages := messages st
                          @ [Node ''div'' [] ''suggestions'' [] [] btns None]\<rparr>,
                      Returns)))
      | _ \<Rightarrow> (st, Returns))"

subsection \<open>The response handler\<close>

definition isArray :: "jsval \<Rightarrow> bool" where
  "isArray v = (case v of JArr xs \<Rightarrow> True | _ \<Rightarrow> False)"

definition fallback_text :: jsstring where
  "fallback_text =
     js ''I did not understand the response from the server. Please try rephrasing.''"

text \<open>
  \<^verbatim>\<open>_handleServerResponse(data)\<close>. Reading \<^verbatim>\<open>data.reply\<close> throws on \<^verbatim>\<open>null\<close>;
  once it has not, the other properties are read without an exception.
\<close>

definition handleServerResponse :: "platform \<Rightarrow> jsval \<Rightarrow> chat \<Rightarrow> chat \<times> completion" where
  "handleServerResponse P data st =
     (case (get_prop data ''reply'', get_prop data ''type'',
            get_prop data ''data'', get_prop data ''suggestions'') of
        (Inr reply, Inr type, Inr data_data, Inr suggestions) \<Rightarrow>
          and_then (if truthy reply then addMessage P ''bot'' reply st else (st, Returns))
            (\<lambda>st.
          and_then (if type = JStr (js ''parts'') \<and> isArray data_data
                    then displayParts P data_data st else (st, Returns))
            (\<lambda>st.
          and_then (if isArray suggestions \<and> suggestions \<noteq> JArr []
                    then renderSuggestions P suggestions st else (st, Returns))
            (\<lambda>st.
          and_then (if \<not> truthy reply \<and> \<not> truthy data_data
                    then addMessage P ''bot'' (JStr fallback_text) st else (st, Returns))
            (\<lambda>st. (st\<lparr>messageCount := messageCount st + 1\<rparr>, Returns)))))
      | _ \<Rightarrow> (st, Throws TypeError))"

section \<open>Sending a message\<close>

text \<open>
  \<^verbatim>\<open>sendMessage()\<close> up to its first \<^verbatim>\<open>await\<close>: everything the call does before it
  gives control back, the call of \<^verbatim>\<open>fetch\<close> included. The value of a textarea is a
  string, so \<^verbatim>\<open>(this.messageInput.value || '')\<close> is that string.
\<close>

definition sendMessage :: "platform \<Rightarrow> chat \<Rightarrow> chat \<times> completion" where
  "sendMessage P st =
     (let raw = trim (inputValue st)
      in if raw = [] \<or> isTyping st then (st, Returns)
         else and_then (addMessage P ''user'' (JStr raw) st)
                (\<lambda>st.
                   let st1 = showTyping
                               (st\<lparr>inputValue := [], messageCount := messageCount st + 1\<rparr>)
                   in (st1\<lparr>requests := requests st1
                              @ [\<lparr>req_url = endpoint st1, req_method = ''POST'',
                                  req_headers = [(''Content-Type'', ''application/json''),
                                                 (''Accept'', ''application/json'')],
                                  body_message = raw, body_sessionId = sessionId st1\<rparr>]\<rparr>,
                       Returns)))"

text \<open>The message of the \<^verbatim>\<open>catch\<close> block; it starts with U+1F50C.\<close>

definition connection_error_text :: jsstring where
  "connection_error_text =
     [55357, 56588]
     @ js '' Connection error. Please check if the backend server is running on port 5000.''"

text \<open>The \<^verbatim>\<open>catch\<close> block of \<^verbatim>\<open>sendMessage\<close>.\<close>

definition network_error :: "platform \<Rightarrow> chat \<Rightarrow> chat \<times> completion" where
  "network_error P st =
     and_then (addMessage P ''bot'' (JStr connection_error_text) (hideTyping st))
       (\<lambda>st. (showToast (js ''Network error - Is the backend running?'') ''error'' st, Returns))"

text \<open>
  When the promise of \<^verbatim>\<open>fetch\<close> settles: rejected, or resolved with a status. A
  resolved response takes the typing indicator away; the body is awaited next.
\<close>

datatype fetch_result = Rejected | Resolved nat

definition fetch_settled :: "platform \<Rightarrow> fetch_result \<Rightarrow> chat \<Rightarrow> chat \<times> completion" where
  "fetch_settled P r st =
     (case r of Rejected \<Rightarrow> network_error P st | Resolved status \<Rightarrow> (hideTyping st, Returns))"

text \<open>
  When the body has been read. \<open>body\<close> is what \<^verbatim>\<open>res.json()\<close> parsed, \<open>None\<close> when
  it rejects. A status outside 200..299 is reported with the status (the message starts
  with U+26A0 U+FE0F); an exception of the handler reaches the \<^verbatim>\<open>catch\<close> block.
\<close>

definition body_settled :: "platform \<Rightarrow> nat \<Rightarrow> jsval option \<Rightarrow> chat \<Rightarrow> chat \<times> completion" where
  "body_settled P status body st =
     (if \<not> (200 \<le> status \<and> status \<le> 299)
      then and_then
             (addMessage P ''bot''
                (JStr ([9888, 65039] @ js '' Server error ('' @ digits status
                       @ js ''). Please try again.'')) st)
             (\<lambda>st. (showToast (js ''Server error: '' @ digits status) ''error'' st, Returns))
      else (case body of
              None \<Rightarrow> network_error P st
            | Some data \<Rightarrow>
                (case handleServerResponse P data st of
                   (st', Throws e) \<Rightarrow> network_error P st'
                 | (st', Returns) \<Rightarrow> (st', Returns))))"

section \<open>The session identifier\<close>

text \<open>
  Local storage: whether reading and writing work (either may throw), and the items.
\<close>

record storage =
  readable :: bool
  writable :: bool
  items :: "(jsstring \<times> jsstring) list"

definition sessionKey :: jsstring where
  "sessionKey = js ''imobot_session_id''"

text \<open>
  \<^verbatim>\<open>_restoreOrCreateSessionId()\<close>. \<open>now\<close> is \<^verbatim>\<open>Date.now()\<close>, an integer below
  \<open>2 ^ 53\<close>; \<open>random36\<close> is \<^verbatim>\<open>Math.random().toString(36)\<close>. The result is the
  identifier and the storage afterwards.
\<close>

definition restoreOrCreateSessionId :: "int \<Rightarrow> jsstring \<Rightarrow> storage \<Rightarrow> jsstring \<times> storage" where
  "restoreOrCreateSessionId now random36 ls =
     (case (if readable ls then map_of (items ls) sessionKey else None) of
        Some (c # cs) \<Rightarrow> (c # cs, ls)
      | _ \<Rightarrow>
          (let newId = js ''session_'' @ int_toString now @ js ''_'' @ take 8 (drop 2 random36)
           in (newId,
               if writable ls then ls\<lparr>items := (sessionKey, newId) # items ls\<rparr> else ls)))"

text \<open>The fields the constructor sets, on a page whose message list is empty.\<close>

definition IMOBOTChat :: "jsstring \<Rightarrow> int \<Rightarrow> jsstring \<Rightarrow> storage \<Rightarrow> chat \<times> storage" where
  "IMOBOTChat host now random36 ls =
     (let (sid, ls') = restoreOrCreateSessionId now random36 ls
      in (\<lparr>endpoint = CHAT_ENDPOINT host, sessionId = sid, messageCount = 0, partsFound = 0,
           isTyping = False, messages = [], inputValue = [], sendDisabled = False,
           toasts = [], requests = []\<rparr>, ls'))"

section \<open>Vocabulary of the properties\<close>

text \<open>
  A platform to evaluate the model on concrete inputs: its \<open>toLowerCase\<close> is the one of
  ASCII, the two number conversions are stand-ins that the evaluations below do not
  depend on.
\<close>

definition sample_platform :: platform where
  "sample_platform =
     \<lparr>number_toString = (\<lambda>q. []),
      string_toNumber = (\<lambda>s. NaN),
      toLowerCase = map (\<lambda>c. if 65 \<le> c \<and> c \<le> 90 then c + 32 else c)\<rparr>"

text \<open>The entity form of a character: one of the five entities, or the character.\<close>

definition entity :: "jschar \<Rightarrow> jsstring" where
  "entity c =
     (if c = 38 then js ''&amp;''
      else if c = 60 then js ''&lt;''
      else if c = 62 then js ''&gt;''
      else if c = 34 then js ''&quot;''
      else if c = 39 then js ''&#039;''
      else [c])"

text \<open>
  The markup substitutions in the order of the specification: bold, newline to
  break, links, emoji wrapping.
\<close>

definition substitutions :: "jsstring \<Rightarrow> jsstring" where
  "substitutions safe =
     foldl wrap_emoji
       (replace_links (replace_all (js ''\<newline>'') (js ''<br>'') (replace_bold safe)))
       emojis"

text \<open>The five passes of \<^verbatim>\<open>_escapeHtml\<close>, in its order.\<close>

definition escape_passes :: "jsstring \<Rightarrow> jsstring" where
  "escape_passes str =
     replace_all (js [CHR 39]) (js ''&#039;'')
       (replace_all (js ''\"'') (js ''&quot;'')
       (replace_all (js ''>'') (js ''&gt;'')
       (replace_all (js ''<'') (js ''&lt;'')
       (replace_all (js ''&'') (js ''&amp;'') str))))"

text \<open>A chat as the constructor leaves it, with a session identifier.\<close>

definition fresh_chat :: chat where
  "fresh_chat =
     \<lparr>endpoint = js ''http://127.0.0.1:5000/api/chat'', sessionId = js ''session_1_abcdefgh'',
      messageCount = 0, partsFound = 0, isTyping = False, messages = [], inputValue = [],
      sendDisabled = False, toasts = [], requests = []\<rparr>"

text \<open>The element that \<^verbatim>\<open>_showTyping\<close> appends.\<close>

definition typing_indicator :: node where
  "typing_indicator =
     Node ''div'' ''typing-indicator'' ''typing-indicator'' [] typing_html [] None"

text \<open>The request that \<^verbatim>\<open>sendMessage\<close> issues for the trimmed text \<open>raw\<close>.\<close>

definition post_request :: "chat \<Rightarrow> jsstring \<Rightarrow> request" where
  "post_request st raw =
     \<lparr>req_url = endpoint st, req_method = ''POST'',
      req_headers = [(''Content-Type'', ''application/json''), (''Accept'', ''application/json'')],
      body_message = raw, body_sessionId = sessionId st\<rparr>"

text \<open>The chat after a first message has been sent from a fresh chat.\<close>

definition first_sent :: chat where
  "first_sent = fst (sendMessage sample_platform (fresh_chat\<lparr>inputValue := js ''hi''\<rparr>))"

text \<open>That chat once \<^verbatim>\<open>fetch\<close> has resolved with status 200; the body is not read yet.\<close>

definition first_resolved :: chat where
  "first_resolved = fst (fetch_settled sample_platform (Resolved 200) first_sent)"

text \<open>
  The values on which ToString returns: all but an object with an own \<^verbatim>\<open>toString\<close>
  property and an array that holds such an object, at any depth.
\<close>

fun converts :: "jsval \<Rightarrow> bool" where
  "converts (JObj kvs) = (map_of kvs (js ''toString'') = None)"
| "converts (JArr xs) = list_all converts xs"
| "converts v = True"

text \<open>The value of a property of an own-property list, \<^verbatim>\<open>undefined\<close> when it is missing.\<close>

definition field :: "(jsstring \<times> jsval) list \<Rightarrow> string \<Rightarrow> jsval" where
  "field kvs name = (case map_of kvs (js name) of Some v \<Rightarrow> v | None \<Rightarrow> JUndefined)"

text \<open>The fields of a part that a card reads.\<close>

definition part_fields :: "string list" where
  "part_fields = [''sales_price'', ''quantity_on_hand'', ''product_name'',
                  ''internal_reference'', ''product_description'']"

text \<open>
  A part whose card can be built: it is neither \<^verbatim>\<open>null\<close> nor \<^verbatim>\<open>undefined\<close>, and the
  five fields the card reads convert. A part that is no object has no field at all.
\<close>

definition part_ok :: "jsval \<Rightarrow> bool" where
  "part_ok p =
     (case p of
        JUndefined \<Rightarrow> False
      | JNull \<Rightarrow> False
      | JObj kvs \<Rightarrow> list_all (\<lambda>name. converts (field kvs name)) part_fields
      | _ \<Rightarrow> True)"

text \<open>A number with two decimals and the suffix, from the hundredths \<open>m\<close>.\<close>

definition price_text :: "nat \<Rightarrow> jsstring" where
  "price_text m =
     digits (m div 100) @ js ''.''
     @ [of_nat (48 + m div 10 mod 10), of_nat (48 + m mod 10)] @ js '' DZD''"

text \<open>Four parts: two objects with fields, a string and an empty object.\<close>

definition four_parts :: "jsval list" where
  "four_parts =
     [JObj [(js ''product_name'', JStr (js ''M3 bearing'')), (js ''sales_price'', JNum (Fin 1250)),
            (js ''quantity_on_hand'', JNum (Fin 12))],
      JObj [(js ''product_name'', JStr (js ''Oil filter'')), (js ''internal_reference'', JStr (js ''OF-7''))],
      JStr (js ''x''),
      JObj []]"

text \<open>The chip that \<^verbatim>\<open>_renderSuggestions\<close> builds for the label \<open>l\<close>.\<close>

definition chip :: "platform \<Rightarrow> jsstring \<Rightarrow> node" where
  "chip P l =
     Node ''button'' [] ''suggestion-btn'' []
       (js ''<i class=\"'' @ js (suggestion_icon (toLowerCase P l)) @ js ''\"></i> '' @ l)
       [] (Some l)"

definition is_string :: "jsval \<Rightarrow> bool" where
  "is_string v = (case v of JStr s \<Rightarrow> True | _ \<Rightarrow> False)"

text \<open>A value that \<^verbatim>\<open>_renderSuggestions\<close> can render: no array, or an array of strings.\<close>

definition labels_ok :: "jsval \<Rightarrow> bool" where
  "labels_ok v = (case v of JArr xs \<Rightarrow> list_all is_string xs | _ \<Rightarrow> True)"

text \<open>A value that \<^verbatim>\<open>_displayParts\<close> can render when it is an array.\<close>

definition parts_ok :: "jsval \<Rightarrow> bool" where
  "parts_ok v = (case v of JArr xs \<Rightarrow> list_all part_ok (take 3 xs) | _ \<Rightarrow> True)"

text \<open>The elements that \<^verbatim>\<open>_renderSuggestions\<close> appends for a list of label strings.\<close>

definition chips :: "platform \<Rightarrow> jsstring list \<Rightarrow> node list" where
  "chips P ls =
     (if ls = [] then [] else [Node ''div'' [] ''suggestions'' [] [] (map (chip P) ls) None])"

text \<open>A response with a number as its reply, two odd parts and one label.\<close>

definition odd_response :: "(jsstring \<times> jsval) list" where
  "odd_response =
     [(js ''reply'', JNum (Fin 42)), (js ''type'', JStr (js ''parts'')),
      (js ''data'', JArr [JObj [], JBool True]),
      (js ''suggestions'', JArr [JStr (js ''Yes'')])]"

text \<open>A digit of base 36, as \<^verbatim>\<open>toString(36)\<close> writes it: \<open>0\<close> to \<open>9\<close> or \<open>a\<close> to \<open>z\<close>.\<close>

definition is_base36 :: "jschar \<Rightarrow> bool" where
  "is_base36 c \<longleftrightarrow> (48 \<le> c \<and> c \<le> 57) \<or> (97 \<le> c \<and> c \<le> 122)"

text \<open>The identifier that is made up from the time and the random string.\<close>

definition new_session_id :: "int \<Rightarrow> jsstring \<Rightarrow> jsstring" where
  "new_session_id now random36 =
     js ''session_'' @ int_toString now @ js ''_'' @ take 8 (drop 2 random36)"

section \<open>Properties\<close>

subsection \<open>Escaping before formatting\<close>

lemma replace_all_single:
  "replace_all [c] rep s = concat (map (\<lambda>x. if x = c then rep else [x]) s)"
  by (induction s) auto

lemma replace_all_single_append:
  "replace_all [c] rep (xs @ ys) = replace_all [c] rep xs @ replace_all [c] rep ys"
  by (simp add: replace_all_single)

lemma escape_passes_single: "escape_passes [c] = entity c"
  by (simp add: escape_passes_def entity_def js_def)

lemma escape_passes_append: "escape_passes (xs @ ys) = escape_passes xs @ escape_passes ys"
  by (simp add: escape_passes_def js_def replace_all_single_append)

lemma escape_passes_entity: "escape_passes s = concat (map entity s)"
proof (induction s)
  case Nil
  show ?case by (simp add: escape_passes_def)
next
  case (Cons c cs)
  have "escape_passes (c # cs) = escape_passes [c] @ escape_passes cs"
    using escape_passes_append [of "[c]" cs] by simp
  then show ?case by (simp add: escape_passes_single Cons.IH)
qed

lemma escapeHtml_string: "escapeHtml P (JStr s) = Inr (concat (map entity s))"
  using escape_passes_entity [of s]
  by (simp add: escapeHtml_def default_arg_def escape_passes_def)

lemma entity_no_markup: "set (entity c) \<inter> {60, 62, 34, 39} = {}"
  by (simp add: entity_def js_def)

lemma entities_no_markup: "set (concat (map entity s)) \<inter> {60, 62, 34, 39} = {}"
  using entity_no_markup by (induction s) (auto simp: Int_Un_distrib2)

lemma formatMessage_string:
  "formatMessage P (JStr s) = Inr (substitutions (concat (map entity s)))"
  by (simp add: escapeHtml_string formatMessage_def default_arg_def substitutions_def)

text \<open>
  C1. For every string \<open>s\<close>, \<^verbatim>\<open>_escapeHtml\<close> turns each of the characters
  \<^verbatim>\<open>& < > " '\<close> into its entity and leaves the others, so that its output holds no
  \<^verbatim>\<open><\<close>, \<^verbatim>\<open>>\<close>, \<^verbatim>\<open>"\<close> or \<^verbatim>\<open>'\<close> and an \<^verbatim>\<open>&\<close> only at the head of an entity; and
  \<^verbatim>\<open>_formatMessage\<close> is the markup substitutions applied to that escaped string:
  escaping comes first.
\<close>

theorem escape_before_formatting:
  "escapeHtml P (JStr s) = Inr (concat (map entity s))
   \<and> formatMessage P (JStr s) = Inr (substitutions (concat (map entity s)))
   \<and> set (concat (map entity s)) \<inter> {60, 62, 34, 39} = {}
   \<and> (\<forall>c \<in> set s.
         (c \<notin> {38, 60, 62, 34, 39} \<and> entity c = [c])
         \<or> entity c \<in> {js ''&amp;'', js ''&lt;'', js ''&gt;'', js ''&quot;'', js ''&#039;''})"
proof (intro conjI ballI)
  show "escapeHtml P (JStr s) = Inr (concat (map entity s))"
    by (rule escapeHtml_string)
  show "formatMessage P (JStr s) = Inr (substitutions (concat (map entity s)))"
    by (rule formatMessage_string)
  show "set (concat (map entity s)) \<inter> {60, 62, 34, 39} = {}"
    by (rule entities_no_markup)
next
  fix c
  show "(c \<notin> {38, 60, 62, 34, 39} \<and> entity c = [c])
         \<or> entity c \<in> {js ''&amp;'', js ''&lt;'', js ''&gt;'', js ''&quot;'', js ''&#039;''}"
    by (simp add: entity_def)
qed

theorem escape_before_formatting_witness:
  "escapeHtml sample_platform (JStr (js ''<b>**x**</b> & \"y\"''))
     = Inr (js ''&lt;b&gt;**x**&lt;/b&gt; &amp; &quot;y&quot;'')
   \<and> formatMessage sample_platform (JStr (js ''<b>**x**</b> & \"y\"''))
     = Inr (js ''&lt;b&gt;<strong>x</strong>&lt;/b&gt; &amp; &quot;y&quot;'')"
proof -
  have e: "concat (map entity (js ''<b>**x**</b> & \"y\"''))
           = js ''&lt;b&gt;**x**&lt;/b&gt; &amp; &quot;y&quot;''"
    by code_simp
  have f: "substitutions (js ''&lt;b&gt;**x**&lt;/b&gt; &amp; &quot;y&quot;'')
           = js ''&lt;b&gt;<strong>x</strong>&lt;/b&gt; &amp; &quot;y&quot;''"
    by code_simp
  from escape_before_formatting [of sample_platform "js ''<b>**x**</b> & \"y\"''"]
  have "escapeHtml sample_platform (JStr (js ''<b>**x**</b> & \"y\"''))
          = Inr (concat (map entity (js ''<b>**x**</b> & \"y\"'')))"
    and "formatMessage sample_platform (JStr (js ''<b>**x**</b> & \"y\"''))
          = Inr (substitutions (concat (map entity (js ''<b>**x**</b> & \"y\"''))))"
    by blast+
  then show ?thesis by (simp only: e f)
qed

subsection \<open>Sending\<close>

lemma addMessage_string:
  "addMessage P role (JStr s) st =
     (st\<lparr>messages := messages st
          @ [createMessageElement role (substitutions (concat (map entity s)))]\<rparr>, Returns)"
  by (simp add: addMessage_def or_else_def formatMessage_string)

lemma sendMessage_noop:
  "trim (inputValue st) = [] \<or> isTyping st \<Longrightarrow> sendMessage P st = (st, Returns)"
  by (auto simp: sendMessage_def Let_def)

lemma sendMessage_sends:
  assumes "\<not> isTyping st" and "trim (inputValue st) \<noteq> []"
  shows "sendMessage P st =
     (st\<lparr>messages := messages st
           @ [createMessageElement ''user''
                (substitutions (concat (map entity (trim (inputValue st))))),
              typing_indicator],
         inputValue := [], messageCount := Suc (messageCount st),
         isTyping := True, sendDisabled := True,
         requests := requests st @ [post_request st (trim (inputValue st))]\<rparr>, Returns)"
  using assms
  by (simp add: sendMessage_def Let_def addMessage_string and_then_def showTyping_def
      typing_indicator_def post_request_def)

lemma trim_hi: "trim (js ''hi'') = js ''hi''"
  by code_simp



lemma js_nonempty: "js (c # cs) \<noteq> []"
  by (simp add: js_def)

lemma trim_again: "trim (js ''again'') = js ''again''"
  by code_simp

lemma fetch_settled_clears: "\<not> isTyping (fst (fetch_settled P r st))"
  by (cases r)
    (simp_all add: fetch_settled_def network_error_def hideTyping_def addMessage_string
      and_then_def showToast_def)

text \<open>
  C2, as the code has it. While the busy flag \<^verbatim>\<open>isTyping\<close> is set, a call of
  \<^verbatim>\<open>sendMessage\<close> does nothing. A send from an idle chat with text sets the flag and
  issues one POST; a second send right after it, whatever the input holds by then,
  changes nothing, so the two calls issue exactly one request. The flag is cleared
  as soon as the promise of \<^verbatim>\<open>fetch\<close> settles, before the body is read.
\<close>

theorem single_flight:
  "(isTyping st \<longrightarrow> sendMessage P st = (st, Returns))
   \<and> (\<not> isTyping st \<and> trim (inputValue st) \<noteq> [] \<longrightarrow>
        (\<exists>st1. sendMessage P st = (st1, Returns)
           \<and> isTyping st1
           \<and> requests st1 = requests st @ [post_request st (trim (inputValue st))]
           \<and> and_then (sendMessage P st) (sendMessage P) = (st1, Returns)
           \<and> (\<forall>v. sendMessage P (st1\<lparr>inputValue := v\<rparr>) = (st1\<lparr>inputValue := v\<rparr>, Returns))))
   \<and> \<not> isTyping (fst (fetch_settled P r st))"
proof (intro conjI impI)
  show "\<not> isTyping (fst (fetch_settled P r st))" by (rule fetch_settled_clears)
next
  assume "isTyping st"
  then show "sendMessage P st = (st, Returns)" by (simp add: sendMessage_noop)
next
  assume a: "\<not> isTyping st \<and> trim (inputValue st) \<noteq> []"
  define st1 where "st1 = fst (sendMessage P st)"
  have s: "sendMessage P st = (st1, Returns)"
    using a by (simp add: st1_def sendMessage_sends)
  have t: "isTyping st1"
    using a by (simp add: st1_def sendMessage_sends)
  have r: "requests st1 = requests st @ [post_request st (trim (inputValue st))]"
    using a by (simp add: st1_def sendMessage_sends)
  have again: "sendMessage P (st1\<lparr>inputValue := v\<rparr>) = (st1\<lparr>inputValue := v\<rparr>, Returns)" for v
    using t by (simp add: sendMessage_noop)
  have twice: "and_then (sendMessage P st) (sendMessage P) = (st1, Returns)"
    using t by (simp add: s and_then_def sendMessage_noop)
  show "\<exists>st1. sendMessage P st = (st1, Returns)
           \<and> isTyping st1
           \<and> requests st1 = requests st @ [post_request st (trim (inputValue st))]
           \<and> and_then (sendMessage P st) (sendMessage P) = (st1, Returns)
           \<and> (\<forall>v. sendMessage P (st1\<lparr>inputValue := v\<rparr>) = (st1\<lparr>inputValue := v\<rparr>, Returns))"
    using s t r again twice by blast
qed

theorem single_flight_witness:
  "isTyping (fresh_chat\<lparr>isTyping := True, inputValue := js ''hi''\<rparr>)
   \<and> sendMessage sample_platform (fresh_chat\<lparr>isTyping := True, inputValue := js ''hi''\<rparr>)
       = (fresh_chat\<lparr>isTyping := True, inputValue := js ''hi''\<rparr>, Returns)
   \<and> \<not> isTyping (fresh_chat\<lparr>inputValue := js ''hi''\<rparr>)
   \<and> trim (inputValue (fresh_chat\<lparr>inputValue := js ''hi''\<rparr>)) \<noteq> []
   \<and> requests (fst (and_then (sendMessage sample_platform (fresh_chat\<lparr>inputValue := js ''hi''\<rparr>))
                       (sendMessage sample_platform)))
       = [post_request fresh_chat (js ''hi'')]"
proof -
  have idle: "\<not> isTyping (fresh_chat\<lparr>inputValue := js ''hi''\<rparr>)"
    by (simp add: fresh_chat_def)
  have nonblank: "trim (inputValue (fresh_chat\<lparr>inputValue := js ''hi''\<rparr>)) \<noteq> []"
    by (simp add: trim_hi js_nonempty)
  have busy: "sendMessage sample_platform (fresh_chat\<lparr>isTyping := True, inputValue := js ''hi''\<rparr>)
       = (fresh_chat\<lparr>isTyping := True, inputValue := js ''hi''\<rparr>, Returns)"
    using single_flight [of "fresh_chat\<lparr>isTyping := True, inputValue := js ''hi''\<rparr>" sample_platform]
    by simp
  from single_flight [of "fresh_chat\<lparr>inputValue := js ''hi''\<rparr>" sample_platform] idle nonblank
  obtain st1 where
    "requests st1 = requests (fresh_chat\<lparr>inputValue := js ''hi''\<rparr>)
        @ [post_request (fresh_chat\<lparr>inputValue := js ''hi''\<rparr>)
             (trim (inputValue (fresh_chat\<lparr>inputValue := js ''hi''\<rparr>)))]"
    and "and_then (sendMessage sample_platform (fresh_chat\<lparr>inputValue := js ''hi''\<rparr>))
           (sendMessage sample_platform) = (st1, Returns)"
    by blast
  then have "requests (fst (and_then (sendMessage sample_platform (fresh_chat\<lparr>inputValue := js ''hi''\<rparr>))
                       (sendMessage sample_platform)))
       = [post_request fresh_chat (js ''hi'')]"
    by (simp add: trim_hi fresh_chat_def post_request_def)
  with idle nonblank busy show ?thesis by simp
qed

lemma first_sent_state:
  "first_sent =
     fresh_chat\<lparr>messages := [createMessageElement ''user'' (substitutions (concat (map entity (js ''hi'')))),
                              typing_indicator],
                 inputValue := [], messageCount := 1, isTyping := True, sendDisabled := True,
                 requests := [post_request fresh_chat (js ''hi'')]\<rparr>"
proof -
  have "\<not> isTyping (fresh_chat\<lparr>inputValue := js ''hi''\<rparr>)"
    by (simp add: fresh_chat_def)
  moreover have "trim (inputValue (fresh_chat\<lparr>inputValue := js ''hi''\<rparr>)) \<noteq> []"
    by (simp add: trim_hi js_nonempty)
  ultimately show ?thesis
    unfolding first_sent_def
    by (simp add: sendMessage_sends trim_hi) (simp add: fresh_chat_def post_request_def)
qed

lemma first_resolved_state:
  "first_resolved =
     fresh_chat\<lparr>messages := [createMessageElement ''user'' (substitutions (concat (map entity (js ''hi''))))],
                 inputValue := [], messageCount := 1, isTyping := False, sendDisabled := False,
                 requests := [post_request fresh_chat (js ''hi'')]\<rparr>"
  unfolding first_resolved_def first_sent_state
  by (simp add: fetch_settled_def hideTyping_def createMessageElement_def typing_indicator_def)

text \<open>
  C2 as it is written fails in the time between the response and its body: the first
  send is in flight until \<^verbatim>\<open>res.json()\<close> settles, but the flag is cleared when
  \<^verbatim>\<open>fetch\<close> resolves, so a second send then issues a second POST while the body of
  the first response is still being read.
\<close>

theorem overlapping_exchanges_counterexample:
  "isTyping first_sent
   \<and> requests first_sent = [post_request fresh_chat (js ''hi'')]
   \<and> \<not> isTyping first_resolved
   \<and> requests (fst (sendMessage sample_platform (first_resolved\<lparr>inputValue := js ''again''\<rparr>)))
       = [post_request fresh_chat (js ''hi''), post_request fresh_chat (js ''again'')]"
proof -
  have "\<not> isTyping (first_resolved\<lparr>inputValue := js ''again''\<rparr>)"
    by (simp add: first_resolved_state)
  moreover have "trim (inputValue (first_resolved\<lparr>inputValue := js ''again''\<rparr>)) \<noteq> []"
    by (simp add: trim_again js_nonempty)
  ultimately have "requests (fst (sendMessage sample_platform (first_resolved\<lparr>inputValue := js ''again''\<rparr>)))
       = requests (first_resolved\<lparr>inputValue := js ''again''\<rparr>)
         @ [post_request (first_resolved\<lparr>inputValue := js ''again''\<rparr>)
              (trim (inputValue (first_resolved\<lparr>inputValue := js ''again''\<rparr>)))]"
    by (simp add: sendMessage_sends)
  then have "requests (fst (sendMessage sample_platform (first_resolved\<lparr>inputValue := js ''again''\<rparr>)))
       = [post_request fresh_chat (js ''hi''), post_request fresh_chat (js ''again'')]"
    by (simp add: trim_again) (simp add: first_resolved_state post_request_def fresh_chat_def)
  then show ?thesis
    by (simp add: first_sent_state first_resolved_state)
qed



subsection \<open>Which values convert\<close>

lemma ToString_converts_aux:
  "(converts v \<longrightarrow> (\<exists>s. ToString P v = Inr s)) \<and> (\<not> converts v \<longrightarrow> ToString P v = Inl TypeError)"
  "(list_all converts xs \<longrightarrow> (\<exists>s. join_comma P xs = Inr s))
   \<and> (\<not> list_all converts xs \<longrightarrow> join_comma P xs = Inl TypeError)"
proof (induction P v and P xs rule: ToString_join_comma.induct)
  case (9 P x xs)
  show ?case
  proof (cases "x = JUndefined \<or> x = JNull")
    case True
    then show ?thesis using 9 by (auto split: sum.splits)
  next
    case False
    then show ?thesis using 9 by (auto split: sum.splits)
  qed
qed auto

lemma ToString_converts: "converts v \<Longrightarrow> \<exists>s. ToString P v = Inr s"
  using ToString_converts_aux(1) [of v P] by blast

lemma ToString_throws: "\<not> converts v \<Longrightarrow> ToString P v = Inl TypeError"
  using ToString_converts_aux(1) [of v P] by blast

lemma ToNumber_converts: "converts v \<Longrightarrow> \<exists>n. ToNumber P v = Inr n"
  using ToString_converts [of v P] by (cases v) (auto simp: ToNumber_def)

lemma escapeHtml_converts: "converts v \<Longrightarrow> \<exists>s. escapeHtml P v = Inr s"
proof -
  assume "converts v"
  then have "converts (default_arg v (JStr []))" by (simp add: default_arg_def)
  then obtain str where "ToString P (default_arg v (JStr [])) = Inr str"
    using ToString_converts by blast
  then show ?thesis by (simp add: escapeHtml_def)
qed

lemma or_else_converts: "converts a \<Longrightarrow> converts b \<Longrightarrow> converts (or_else a b)"
  by (simp add: or_else_def)

lemma part_price_converts: "converts v \<Longrightarrow> \<exists>s. part_price P v = Inr s"
  using ToNumber_converts [of v P] by (auto simp: part_price_def bindE_def)

lemma part_stockClass_converts: "converts v \<Longrightarrow> \<exists>s. part_stockClass P v = Inr s"
  using ToNumber_converts [of v P] by (auto simp: part_stockClass_def bindE_def)

lemma part_stockText_converts: "converts v \<Longrightarrow> \<exists>s. part_stockText P v = Inr s"
  using ToString_converts [of v P] by (auto simp: part_stockText_def bindE_def)

lemma part_card_fields:
  assumes "get_prop p ''sales_price'' = Inr a" and "get_prop p ''quantity_on_hand'' = Inr b"
    and "get_prop p ''product_name'' = Inr c" and "get_prop p ''internal_reference'' = Inr d"
    and "get_prop p ''product_description'' = Inr e"
    and "converts a" and "converts b" and "converts c" and "converts d" and "converts e"
  shows "\<exists>card. part_card P p = Inr card"
proof -
  obtain price where 1: "part_price P a = Inr price"
    using part_price_converts assms by blast
  have "converts (part_stock b)"
    using assms by (simp add: part_stock_def or_else_def)
  then obtain cls stxt where 2: "part_stockClass P (part_stock b) = Inr cls"
    and 3: "part_stockText P (part_stock b) = Inr stxt"
    using part_stockClass_converts part_stockText_converts by blast
  obtain n where 4: "escapeHtml P (or_else c (JStr (js ''Spare Part''))) = Inr n"
    using escapeHtml_converts or_else_converts assms by (metis converts.simps(7))
  obtain r where 5: "escapeHtml P (or_else d (JStr [])) = Inr r"
    using escapeHtml_converts or_else_converts assms by (metis converts.simps(7))
  obtain ds where 6: "escapeHtml P (or_else e (JStr [])) = Inr ds"
    using escapeHtml_converts or_else_converts assms by (metis converts.simps(7))
  show ?thesis
    by (simp add: part_card_def bindE_def assms 1 2 3 4 5 6)
qed

lemma part_card_ok: "part_ok p \<Longrightarrow> \<exists>card. part_card P p = Inr card"
proof (cases p)
  case (JObj kvs)
  assume "part_ok p"
  then have "converts (field kvs ''sales_price'')" "converts (field kvs ''quantity_on_hand'')"
    "converts (field kvs ''product_name'')" "converts (field kvs ''internal_reference'')"
    "converts (field kvs ''product_description'')"
    using JObj by (simp_all add: part_ok_def part_fields_def)
  then show ?thesis
    using JObj part_card_fields [of p "field kvs ''sales_price''" "field kvs ''quantity_on_hand''"
        "field kvs ''product_name''" "field kvs ''internal_reference''"
        "field kvs ''product_description''" P]
    by (simp add: field_def)
qed (auto simp: part_ok_def intro!: part_card_fields)

lemma part_cards_ok: "list_all part_ok ps \<Longrightarrow> \<exists>cards. part_cards P ps = Inr cards"
proof (induction ps)
  case Nil
  show ?case by simp
next
  case (Cons p ps)
  then obtain card cards where "part_card P p = Inr card" and "part_cards P ps = Inr cards"
    using part_card_ok [of p P] by auto
  then show ?case by (simp add: bindE_def)
qed

lemma part_cards_each:
  "part_cards P ps = Inr cards \<Longrightarrow>
     length cards = length ps \<and> (\<forall>i < length ps. part_card P (ps ! i) = Inr (cards ! i))"
proof (induction ps arbitrary: cards)
  case Nil
  then show ?case by simp
next
  case (Cons p ps)
  then obtain card rest where c: "part_card P p = Inr card" and r: "part_cards P ps = Inr rest"
    and cs: "cards = card # rest"
    by (auto simp: bindE_def split: sum.splits)
  have "length rest = length ps \<and> (\<forall>i < length ps. part_card P (ps ! i) = Inr (rest ! i))"
    using Cons.IH [OF r] .
  then show ?case
    using c cs by (auto simp: nth_Cons split: nat.splits)
qed

subsection \<open>Part cards: stock and price\<close>

lemma part_card_constants:
  assumes "part_card P (JObj kvs) = Inr elem"
  shows "\<exists>partName reference description price stockClass stockText.
           part_price P (field kvs ''sales_price'') = Inr price
           \<and> part_stockClass P (part_stock (field kvs ''quantity_on_hand'')) = Inr stockClass
           \<and> part_stockText P (part_stock (field kvs ''quantity_on_hand'')) = Inr stockText
           \<and> elem = Node ''div'' [] ''part-card'' []
                      (card_html partName reference description price stockClass stockText)
                      [] None"
  using assms
  by (auto simp: part_card_def bindE_def field_def split: sum.splits)

lemma stockClass_number:
  "part_stockClass P (part_stock (JNum (Fin q))) =
     Inr (if q = 0 then js ''out'' else if q < 5 then js ''low'' else [])"
  by (simp add: part_stockClass_def part_stock_def or_else_def ToNumber_def bindE_def)

lemma stockText_zero: "part_stockText P (part_stock (JNum (Fin 0))) = Inr (js ''Out of stock'')"
  by (simp add: part_stockText_def part_stock_def or_else_def)

text \<open>
  C5. On a card whose part has the number \<open>q\<close> as its quantity: \<open>q = 0\<close> gives the
  class \<^verbatim>\<open>out\<close> and the label \<^verbatim>\<open>Out of stock\<close>, \<open>1 \<le> q \<le> 4\<close> the class \<^verbatim>\<open>low\<close> and
  \<open>q \<ge> 5\<close> no class; 4 is low and 5 is not.
\<close>

theorem stock_tiers:
  assumes "map_of kvs (js ''quantity_on_hand'') = Some (JNum (Fin q))"
    and "part_card P (JObj kvs) = Inr elem"
  shows "\<exists>partName reference description price stockClass stockText.
           elem = Node ''div'' [] ''part-card'' []
                    (card_html partName reference description price stockClass stockText)
                    [] None
           \<and> part_stockClass P (part_stock (JNum (Fin q))) = Inr stockClass
           \<and> part_stockText P (part_stock (JNum (Fin q))) = Inr stockText
           \<and> (q = 0 \<longrightarrow> stockClass = js ''out'' \<and> stockText = js ''Out of stock'')
           \<and> (1 \<le> q \<and> q \<le> 4 \<longrightarrow> stockClass = js ''low'')
           \<and> (5 \<le> q \<longrightarrow> stockClass = [])
           \<and> part_stockClass P (part_stock (JNum (Fin 4))) = Inr (js ''low'')
           \<and> part_stockClass P (part_stock (JNum (Fin 5))) = Inr []"
proof -
  have f: "field kvs ''quantity_on_hand'' = JNum (Fin q)"
    using assms(1) by (simp add: field_def)
  obtain partName reference description price stockClass stockText where
    c: "part_stockClass P (part_stock (JNum (Fin q))) = Inr stockClass"
    and t: "part_stockText P (part_stock (JNum (Fin q))) = Inr stockText"
    and n: "elem = Node ''div'' [] ''part-card'' []
                    (card_html partName reference description price stockClass stockText)
                    [] None"
    using part_card_constants [OF assms(2)] f by auto
  have tiers: "(q = 0 \<longrightarrow> stockClass = js ''out'' \<and> stockText = js ''Out of stock'')
           \<and> (1 \<le> q \<and> q \<le> 4 \<longrightarrow> stockClass = js ''low'')
           \<and> (5 \<le> q \<longrightarrow> stockClass = [])"
    using c t by (auto simp: stockClass_number stockText_zero)
  have "part_stockClass P (part_stock (JNum (Fin 4))) = Inr (js ''low'')"
    and "part_stockClass P (part_stock (JNum (Fin 5))) = Inr []"
    by (simp_all add: stockClass_number)
  with c t n tiers show ?thesis by blast
qed

lemma card_quantity_4:
  "part_card sample_platform (JObj [(js ''quantity_on_hand'', JNum (Fin 4))]) =
     Inr (Node ''div'' [] ''part-card'' []
            (card_html (js ''Spare Part'') [] [] (js ''Price on request'')
               (js ''low'') (js ''4 units available''))
            [] None)"
  by code_simp

theorem stock_tiers_witness:
  "map_of [(js ''quantity_on_hand'', JNum (Fin 4))] (js ''quantity_on_hand'') = Some (JNum (Fin 4))
   \<and> part_card sample_platform (JObj [(js ''quantity_on_hand'', JNum (Fin 4))]) =
       Inr (Node ''div'' [] ''part-card'' []
              (card_html (js ''Spare Part'') [] [] (js ''Price on request'')
                 (js ''low'') (js ''4 units available''))
              [] None)
   \<and> part_stockClass sample_platform (part_stock (JNum (Fin 4))) = Inr (js ''low'')
   \<and> part_stockClass sample_platform (part_stock (JNum (Fin 5))) = Inr []"
proof -
  have m: "map_of [(js ''quantity_on_hand'', JNum (Fin 4))] (js ''quantity_on_hand'')
           = Some (JNum (Fin 4))"
    by simp
  show ?thesis
    using stock_tiers [OF m card_quantity_4] m card_quantity_4 by blast
qed

subsection \<open>The price\<close>

lemma digit_char:
  assumes "d < 10"
  shows "(of_nat (48 + d) :: jschar) \<in> {48, 49, 50, 51, 52, 53, 54, 55, 56, 57}"
proof -
  have "d = 0 \<or> d = 1 \<or> d = 2 \<or> d = 3 \<or> d = 4 \<or> d = 5 \<or> d = 6 \<or> d = 7 \<or> d = 8 \<or> d = 9"
    using assms by arith
  then show ?thesis by auto
qed

lemma digits_chars: "set (digits n) \<subseteq> {48, 49, 50, 51, 52, 53, 54, 55, 56, 57}"
proof (induction n rule: digits.induct)
  case (1 n)
  show ?case
  proof (cases "n < 10")
    case True
    then show ?thesis using digit_char [of n] by (simp add: digits.simps [of n])
  next
    case False
    have "n mod 10 < 10" by simp
    then show ?thesis
      using False 1 digit_char [of "n mod 10"] by (simp add: digits.simps [of n])
  qed
qed

lemma str_includes_set: "str_includes s pat \<Longrightarrow> set pat \<subseteq> set s"
proof (induction s)
  case Nil
  then show ?case by simp
next
  case (Cons c cs)
  then show ?case
  proof (cases "take (length pat) (c # cs) = pat")
    case True
    then have "set pat = set (take (length pat) (c # cs))" by simp
    then show ?thesis using set_take_subset [of "length pat" "c # cs"] by blast
  next
    case False
    then show ?thesis using Cons by auto
  qed
qed

lemma price_text_chars:
  "set (price_text m) \<subseteq> {48, 49, 50, 51, 52, 53, 54, 55, 56, 57, 46, 32, 68, 90}"
proof -
  have "m div 10 mod 10 < 10" and "m mod 10 < 10" by simp_all
  then show ?thesis
    using digits_chars [of "m div 100"] digit_char [of "m div 10 mod 10"] digit_char [of "m mod 10"]
    by (auto simp: price_text_def js_def)
qed

lemma price_text_clean:
  "\<not> str_includes (price_text m) (js ''NaN'') \<and> \<not> str_includes (price_text m) (js ''undefined'')"
proof -
  have "\<not> set (js ''NaN'') \<subseteq> set (price_text m)"
    using price_text_chars [of m] by (auto simp: js_def)
  moreover have "\<not> set (js ''undefined'') \<subseteq> set (price_text m)"
    using price_text_chars [of m] by (auto simp: js_def)
  ultimately show ?thesis using str_includes_set by blast
qed

lemma part_price_number:
  assumes "0 < q" and "q < 10 ^ 21"
  shows "part_price P (JNum (Fin q)) = Inr (price_text (nat \<lfloor>q * 100 + 1 / 2\<rfloor>))"
  using assms
  by (simp add: part_price_def ToNumber_def bindE_def toFixed2_def price_text_def Let_def)

lemma hundredths_nearest:
  assumes "0 < (q::rat)"
  shows "\<bar>of_nat (nat \<lfloor>q * 100 + 1 / 2\<rfloor>) / 100 - q\<bar> \<le> 1 / 200"
proof -
  define f where "f = \<lfloor>q * 100 + 1 / 2\<rfloor>"
  have "0 \<le> f" using assms by (simp add: f_def)
  then have n: "(of_nat (nat f) :: rat) = of_int f" by simp
  have "of_int f \<le> q * 100 + 1 / 2" and "q * 100 + 1 / 2 < of_int f + 1"
    unfolding f_def by linarith+
  then have "\<bar>of_int f / 100 - q\<bar> \<le> 1 / 200" by linarith
  then show ?thesis using n by (simp only: f_def)
qed

lemma placeholder_clean:
  "\<not> str_includes (js ''Price on request'') (js ''NaN'')
   \<and> \<not> str_includes (js ''Price on request'') (js ''undefined'')"
  by code_simp

text \<open>
  C3, as the code has it. A price that is a number \<open>q\<close> with \<open>0 < q < 10 ^ 21\<close> is
  rendered as \<open>q\<close> rounded to the nearest hundredth (a tie upwards), with two
  decimals, followed by \<^verbatim>\<open>" DZD"\<close>; a missing price is rendered as
  \<^verbatim>\<open>"Price on request"\<close>; neither string holds \<^verbatim>\<open>NaN\<close> or \<^verbatim>\<open>undefined\<close>.
\<close>

theorem price_format:
  "(0 < q \<and> q < 10 ^ 21 \<and> map_of kvs (js ''sales_price'') = Some (JNum (Fin q)) \<longrightarrow>
      bindE (get_prop (JObj kvs) ''sales_price'') (part_price P)
        = Inr (price_text (nat \<lfloor>q * 100 + 1 / 2\<rfloor>))
      \<and> \<bar>of_nat (nat \<lfloor>q * 100 + 1 / 2\<rfloor>) / 100 - q\<bar> \<le> 1 / 200
      \<and> \<not> str_includes (price_text (nat \<lfloor>q * 100 + 1 / 2\<rfloor>)) (js ''NaN'')
      \<and> \<not> str_includes (price_text (nat \<lfloor>q * 100 + 1 / 2\<rfloor>)) (js ''undefined''))
   \<and> (map_of kvs (js ''sales_price'') = None \<longrightarrow>
        bindE (get_prop (JObj kvs) ''sales_price'') (part_price P)
          = Inr (js ''Price on request''))
   \<and> \<not> str_includes (js ''Price on request'') (js ''NaN'')
   \<and> \<not> str_includes (js ''Price on request'') (js ''undefined'')"
proof (intro conjI impI)
  assume a: "0 < q \<and> q < 10 ^ 21 \<and> map_of kvs (js ''sales_price'') = Some (JNum (Fin q))"
  then show "bindE (get_prop (JObj kvs) ''sales_price'') (part_price P)
        = Inr (price_text (nat \<lfloor>q * 100 + 1 / 2\<rfloor>))"
    using part_price_number [of q P] by (simp add: bindE_def)
  show "\<bar>of_nat (nat \<lfloor>q * 100 + 1 / 2\<rfloor>) / 100 - q\<bar> \<le> 1 / 200"
    using a hundredths_nearest by blast
next
  assume "map_of kvs (js ''sales_price'') = None"
  then show "bindE (get_prop (JObj kvs) ''sales_price'') (part_price P)
          = Inr (js ''Price on request'')"
    by (simp add: bindE_def part_price_def)
qed (simp_all only: price_text_clean placeholder_clean not_False_eq_True)

lemma price_text_1999: "price_text (nat \<lfloor>(3999 / 200 :: rat) * 100 + 1 / 2\<rfloor>) = js ''20.00 DZD''"
  by code_simp

theorem price_format_witness:
  "(0::rat) < 3999 / 200 \<and> (3999 / 200 :: rat) < 10 ^ 21
   \<and> bindE (get_prop (JObj [(js ''sales_price'', JNum (Fin (3999 / 200)))]) ''sales_price'')
        (part_price sample_platform) = Inr (js ''20.00 DZD'')
   \<and> bindE (get_prop (JObj []) ''sales_price'') (part_price sample_platform)
        = Inr (js ''Price on request'')"
proof -
  have r: "(0::rat) < 3999 / 200 \<and> (3999 / 200 :: rat) < 10 ^ 21" by simp
  have m: "map_of [(js ''sales_price'', JNum (Fin (3999 / 200)))] (js ''sales_price'')
           = Some (JNum (Fin (3999 / 200)))"
    by simp
  have e: "map_of ([] :: (jsstring \<times> jsval) list) (js ''sales_price'') = None" by simp
  from price_format [of "3999 / 200" "[(js ''sales_price'', JNum (Fin (3999 / 200)))]" sample_platform]
    r m
  have "bindE (get_prop (JObj [(js ''sales_price'', JNum (Fin (3999 / 200)))]) ''sales_price'')
        (part_price sample_platform)
        = Inr (price_text (nat \<lfloor>(3999 / 200 :: rat) * 100 + 1 / 2\<rfloor>))"
    by blast
  then have a: "bindE (get_prop (JObj [(js ''sales_price'', JNum (Fin (3999 / 200)))]) ''sales_price'')
        (part_price sample_platform) = Inr (js ''20.00 DZD'')"
    by (simp only: price_text_1999)
  from price_format [of 1 "[]" sample_platform] e
  have b: "bindE (get_prop (JObj []) ''sales_price'') (part_price sample_platform)
        = Inr (js ''Price on request'')"
    by blast
  show ?thesis using a b r by blast
qed

text \<open>
  A price that is a string and no numeric literal (StringToNumber gives NaN) is
  rendered as \<^verbatim>\<open>"NaN DZD"\<close>.
\<close>

lemma part_price_not_numeric:
  assumes "string_toNumber P s = NaN" and "s \<noteq> []"
  shows "part_price P (JStr s) = Inr (js ''NaN DZD'')"
  using assms
  by (simp add: part_price_def ToNumber_def bindE_def toFixed2_def Number_toString_def js_def)

text \<open>
  C3 as it is written fails at the price 0, which is a price \<open>p \<ge> 0\<close> that is present:
  0 is falsy, so the card shows the placeholder and not \<^verbatim>\<open>"0.00 DZD"\<close>.
\<close>

theorem price_zero_counterexample:
  "bindE (get_prop (JObj [(js ''sales_price'', JNum (Fin 0))]) ''sales_price'')
        (part_price sample_platform) = Inr (js ''Price on request'')
   \<and> toFixed2 sample_platform (Fin 0) @ js '' DZD'' = js ''0.00 DZD''
   \<and> js ''Price on request'' \<noteq> js ''0.00 DZD''"
  by code_simp

subsection \<open>The number of cards\<close>

lemma displayParts_array:
  "displayParts P (JArr xs) st =
     (if xs = [] then (st, Returns)
      else (case part_cards P (take 3 xs) of
              Inl e \<Rightarrow> (st, Throws e)
            | Inr cards \<Rightarrow>
                (st\<lparr>messages := messages st
                     @ [Node ''div'' [] ''parts-list'' [] []
                          (cards @ (if 3 < length xs then [more_results (length xs - 3)] else []))
                          None]\<rparr>,
                 Returns)))"
  by (simp add: displayParts_def default_arg_def)

text \<open>
  C4. When \<^verbatim>\<open>_displayParts\<close> renders an array of \<open>n\<close> parts, it appends one container
  that holds \<open>min n 3\<close> cards, the card of the \<open>i\<close>-th part at position \<open>i\<close>, followed by
  the notice exactly when \<open>n > 3\<close>; the notice counts \<open>n - 3\<close> more results; for \<open>n = 0\<close>
  nothing is appended. It does render the array when the first three parts are
  neither \<^verbatim>\<open>null\<close> nor hold a field that cannot be converted.
\<close>

theorem parts_cards_and_overflow:
  "(displayParts P (JArr xs) st = (st', Returns) \<longrightarrow>
      (\<exists>cards.
         st' = (if xs = [] then st
                else st\<lparr>messages := messages st
                          @ [Node ''div'' [] ''parts-list'' [] []
                               (cards @ (if 3 < length xs then [more_results (length xs - 3)]
                                         else []))
                               None]\<rparr>)
         \<and> length cards = min (length xs) 3
         \<and> (\<forall>i < length cards. part_card P (xs ! i) = Inr (cards ! i))))
   \<and> (list_all part_ok (take 3 xs) \<longrightarrow> (\<exists>st'. displayParts P (JArr xs) st = (st', Returns)))
   \<and> innerHTML (more_results (length xs - 3)) =
       js ''<i class=\"fas fa-plus-circle\"></i> '' @ digits (length xs - 3)
       @ js '' more results available''"
proof (intro conjI impI)
  assume r: "displayParts P (JArr xs) st = (st', Returns)"
  show "\<exists>cards.
         st' = (if xs = [] then st
                else st\<lparr>messages := messages st
                          @ [Node ''div'' [] ''parts-list'' [] []
                               (cards @ (if 3 < length xs then [more_results (length xs - 3)]
                                         else []))
                               None]\<rparr>)
         \<and> length cards = min (length xs) 3
         \<and> (\<forall>i < length cards. part_card P (xs ! i) = Inr (cards ! i))"
  proof (cases "xs = []")
    case True
    then have "st' = st" using r by (simp add: displayParts_array)
    then show ?thesis using True by simp
  next
    case False
    then obtain cards where c: "part_cards P (take 3 xs) = Inr cards"
      and s: "st' = st\<lparr>messages := messages st
                          @ [Node ''div'' [] ''parts-list'' [] []
                               (cards @ (if 3 < length xs then [more_results (length xs - 3)]
                                         else []))
                               None]\<rparr>"
      using r by (auto simp: displayParts_array split: sum.splits)
    have l: "length cards = min (length xs) 3"
      using part_cards_each [OF c] by simp
    have "\<forall>i < length (take 3 xs). part_card P (take 3 xs ! i) = Inr (cards ! i)"
      using part_cards_each [OF c] by blast
    then have "\<forall>i < length cards. part_card P (xs ! i) = Inr (cards ! i)"
      using l by simp
    then show ?thesis using False s l by auto
  qed
next
  assume "list_all part_ok (take 3 xs)"
  then obtain cards where "part_cards P (take 3 xs) = Inr cards"
    using part_cards_ok by blast
  then show "\<exists>st'. displayParts P (JArr xs) st = (st', Returns)"
    by (simp add: displayParts_array)
next
  show "innerHTML (more_results (length xs - 3)) =
       js ''<i class=\"fas fa-plus-circle\"></i> '' @ digits (length xs - 3)
       @ js '' more results available''"
    by (simp add: more_results_def)
qed

lemma four_parts_ok: "list_all part_ok (take 3 four_parts)"
  by code_simp

theorem parts_cards_and_overflow_witness:
  "list_all part_ok (take 3 four_parts)
   \<and> length four_parts = 4
   \<and> (\<exists>c0 c1 c2.
        part_card sample_platform (four_parts ! 0) = Inr c0
        \<and> part_card sample_platform (four_parts ! 1) = Inr c1
        \<and> part_card sample_platform (four_parts ! 2) = Inr c2
        \<and> displayParts sample_platform (JArr four_parts) fresh_chat =
            (fresh_chat\<lparr>messages :=
               [Node ''div'' [] ''parts-list'' [] [] [c0, c1, c2, more_results 1] None]\<rparr>,
             Returns))
   \<and> innerHTML (more_results 1) =
       js ''<i class=\"fas fa-plus-circle\"></i> 1 more results available''"
proof -
  have n: "length four_parts = 4" and ne: "four_parts \<noteq> []"
    by (simp_all add: four_parts_def)
  obtain st' where r: "displayParts sample_platform (JArr four_parts) fresh_chat = (st', Returns)"
    using parts_cards_and_overflow [of sample_platform four_parts fresh_chat] four_parts_ok
    by blast
  from parts_cards_and_overflow [of sample_platform four_parts fresh_chat st'] r
  obtain cards where
    d: "st' = fresh_chat\<lparr>messages := messages fresh_chat
               @ [Node ''div'' [] ''parts-list'' [] [] (cards @ [more_results 1]) None]\<rparr>"
    and l: "length cards = 3"
    and e: "\<forall>i < length cards. part_card sample_platform (four_parts ! i) = Inr (cards ! i)"
    using n ne by auto
  from l obtain c0 c1 c2 where cs: "cards = [c0, c1, c2]"
    by (auto simp: length_Suc_conv numeral_3_eq_3)
  have "part_card sample_platform (four_parts ! 0) = Inr c0"
    and "part_card sample_platform (four_parts ! 1) = Inr c1"
    and "part_card sample_platform (four_parts ! 2) = Inr c2"
    using e cs by simp_all
  moreover have "displayParts sample_platform (JArr four_parts) fresh_chat =
            (fresh_chat\<lparr>messages :=
               [Node ''div'' [] ''parts-list'' [] [] [c0, c1, c2, more_results 1] None]\<rparr>,
             Returns)"
    using r d cs by (simp add: fresh_chat_def)
  moreover have "innerHTML (more_results 1) =
       js ''<i class=\"fas fa-plus-circle\"></i> 1 more results available''"
    by (simp add: more_results_def digits.simps js_def)
  ultimately show ?thesis using four_parts_ok n by blast
qed

subsection \<open>Suggestion labels\<close>

lemma suggestion_buttons_strings: "suggestion_buttons P (map JStr ls) = Inr (map (chip P) ls)"
  by (induction ls) (simp_all add: suggestion_button_def bindE_def chip_def)

lemma renderSuggestions_strings:
  "renderSuggestions P (JArr (map JStr ls)) st =
     (if ls = [] then (st, Returns)
      else (st\<lparr>messages := messages st
                @ [Node ''div'' [] ''suggestions'' [] [] (map (chip P) ls) None]\<rparr>, Returns))"
  by (simp add: renderSuggestions_def default_arg_def suggestion_buttons_strings)






text \<open>
  A quantity that is a string with characters goes into the stock text as it is, on
  every platform: \<^verbatim>\<open>${stock}\<close> is not escaped.
\<close>

lemma stockText_string:
  "part_stockText P (part_stock (JStr (c # cs))) = Inr (c # cs @ js '' units available'')"
  by (simp add: part_stockText_def part_stock_def or_else_def bindE_def)


subsection \<open>When rendering returns\<close>

lemma strings_map_JStr: "list_all is_string xs \<Longrightarrow> \<exists>ls. xs = map JStr ls"
proof (induction xs)
  case Nil
  show ?case by simp
next
  case (Cons x xs)
  then obtain ls where "xs = map JStr ls" by auto
  moreover obtain l where "x = JStr l"
    using Cons.prems by (cases x) (simp_all add: is_string_def)
  ultimately have "x # xs = map JStr (l # ls)" by simp
  then show ?case by (rule exI)
qed

lemma renderSuggestions_chips:
  "renderSuggestions P (JArr (map JStr ls)) st =
     (st\<lparr>messages := messages st @ chips P ls\<rparr>, Returns)"
  by (simp add: renderSuggestions_strings chips_def)

lemma and_then_returns:
  assumes "snd r = Returns" and "\<And>s. snd (f s) = Returns"
  shows "snd (and_then r f) = Returns"
  using assms by (cases r) (simp add: and_then_def)

lemma renderSuggestions_returns:
  assumes "labels_ok v"
  shows "snd (renderSuggestions P v st) = Returns"
proof (cases v)
  case (JArr xs)
  then obtain ls where "xs = map JStr ls"
    using assms strings_map_JStr by (auto simp: labels_ok_def)
  then show ?thesis using JArr by (simp add: renderSuggestions_chips)
qed (simp_all add: renderSuggestions_def default_arg_def)

lemma suggestions_guard:
  "(if isArray v \<and> v \<noteq> JArr [] then renderSuggestions P v st else (st, Returns))
     = renderSuggestions P v st"
  by (cases v) (simp_all add: isArray_def renderSuggestions_def default_arg_def)

lemma addMessage_returns:
  assumes "converts v"
  shows "snd (addMessage P role v st) = Returns"
proof -
  have "converts (or_else v (JStr []))"
    using assms by (simp add: or_else_def)
  then have "converts (default_arg (or_else v (JStr [])) (JStr []))"
    by (simp add: default_arg_def)
  then obtain safe where "escapeHtml P (default_arg (or_else v (JStr [])) (JStr [])) = Inr safe"
    using escapeHtml_converts by blast
  then obtain html where "formatMessage P (or_else v (JStr [])) = Inr html"
    by (simp add: formatMessage_def)
  then show ?thesis by (simp add: addMessage_def)
qed

lemma displayParts_returns:
  assumes "list_all part_ok (take 3 xs)"
  shows "snd (displayParts P (JArr xs) st) = Returns"
proof -
  obtain cards where "part_cards P (take 3 xs) = Inr cards"
    using part_cards_ok [OF assms] by blast
  then show ?thesis by (simp add: displayParts_array)
qed

lemma parts_guard_returns:
  assumes "type = JStr (js ''parts'') \<longrightarrow> parts_ok v"
  shows "snd (if type = JStr (js ''parts'') \<and> isArray v then displayParts P v st
              else (st, Returns)) = Returns"
proof (cases "type = JStr (js ''parts'') \<and> isArray v")
  case True
  then obtain xs where "v = JArr xs" by (cases v) (simp_all add: isArray_def)
  then show ?thesis
    using True assms displayParts_returns [of xs P st] by (simp add: parts_ok_def)
next
  case False
  then show ?thesis by auto
qed

lemma handleServerResponse_object:
  "handleServerResponse P (JObj kvs) st =
     and_then (if truthy (field kvs ''reply'') then addMessage P ''bot'' (field kvs ''reply'') st
               else (st, Returns))
       (\<lambda>st.
     and_then (if field kvs ''type'' = JStr (js ''parts'') \<and> isArray (field kvs ''data'')
               then displayParts P (field kvs ''data'') st else (st, Returns))
       (\<lambda>st.
     and_then (renderSuggestions P (field kvs ''suggestions'') st)
       (\<lambda>st.
     and_then (if \<not> truthy (field kvs ''reply'') \<and> \<not> truthy (field kvs ''data'')
               then addMessage P ''bot'' (JStr fallback_text) st else (st, Returns))
       (\<lambda>st. (st\<lparr>messageCount := messageCount st + 1\<rparr>, Returns)))))"
  unfolding handleServerResponse_def field_def get_prop.simps prod.case sum.case
    suggestions_guard ..

text \<open>
  C8, as the code has it. Handling a response object returns when the reply converts
  to a string, the first three entries of a parts array are neither \<^verbatim>\<open>null\<close> nor hold a
  field that does not convert, and the suggestions, when they are an array, are
  strings. A missing field and a field of any primitive type meet these conditions.
  \<^verbatim>\<open>_displayParts\<close> and \<^verbatim>\<open>_renderSuggestions\<close> return under the same conditions.
\<close>

theorem rendering_returns:
  assumes "converts (field kvs ''reply'')"
    and "field kvs ''type'' = JStr (js ''parts'') \<longrightarrow> parts_ok (field kvs ''data'')"
    and "labels_ok (field kvs ''suggestions'')"
  shows "(\<exists>st'. handleServerResponse P (JObj kvs) st = (st', Returns))
         \<and> (\<forall>xs. list_all part_ok (take 3 xs) \<longrightarrow>
               (\<exists>st'. displayParts P (JArr xs) st = (st', Returns)))
         \<and> (\<forall>v. labels_ok v \<longrightarrow> (\<exists>st'. renderSuggestions P v st = (st', Returns)))"
proof (intro conjI allI impI)
  have 1: "snd (if truthy (field kvs ''reply'')
                then addMessage P ''bot'' (field kvs ''reply'') st else (st, Returns)) = Returns"
    using addMessage_returns [OF assms(1)] by simp
  have 4: "snd (if \<not> truthy (field kvs ''reply'') \<and> \<not> truthy (field kvs ''data'')
                then addMessage P ''bot'' (JStr fallback_text) s else (s, Returns)) = Returns" for s
    using addMessage_returns [of "JStr fallback_text"] by simp
  have "snd (handleServerResponse P (JObj kvs) st) = Returns"
    unfolding handleServerResponse_object
    by (intro and_then_returns 1 4 parts_guard_returns [OF assms(2)]
        renderSuggestions_returns [OF assms(3)]) simp
  then show "\<exists>st'. handleServerResponse P (JObj kvs) st = (st', Returns)"
    by (metis prod.collapse)
next
  fix xs assume "list_all part_ok (take 3 xs)"
  then have "snd (displayParts P (JArr xs) st) = Returns"
    by (rule displayParts_returns)
  then show "\<exists>st'. displayParts P (JArr xs) st = (st', Returns)"
    by (metis prod.collapse)
next
  fix v assume "labels_ok v"
  then have "snd (renderSuggestions P v st) = Returns"
    by (rule renderSuggestions_returns)
  then show "\<exists>st'. renderSuggestions P v st = (st', Returns)"
    by (metis prod.collapse)
qed

lemma odd_response_ok:
  "converts (field odd_response ''reply'')"
  "parts_ok (field odd_response ''data'')"
  "labels_ok (field odd_response ''suggestions'')"
  by code_simp+

theorem rendering_returns_witness:
  "converts (field odd_response ''reply'')
   \<and> parts_ok (field odd_response ''data'')
   \<and> labels_ok (field odd_response ''suggestions'')
   \<and> snd (handleServerResponse sample_platform (JObj odd_response) fresh_chat) = Returns
   \<and> snd (displayParts sample_platform (JArr [JObj [], JBool True]) fresh_chat) = Returns
   \<and> snd (renderSuggestions sample_platform (JArr [JStr (js ''Yes'')]) fresh_chat) = Returns"
proof -
  have p: "list_all part_ok (take 3 [JObj [], JBool True])"
    by code_simp
  have l: "labels_ok (JArr [JStr (js ''Yes'')])"
    by code_simp
  note r = rendering_returns [of odd_response sample_platform fresh_chat,
      OF odd_response_ok(1) _ odd_response_ok(3)]
  have "\<exists>st'. handleServerResponse sample_platform (JObj odd_response) fresh_chat = (st', Returns)"
    using r odd_response_ok(2) by blast
  moreover have "\<exists>st'. displayParts sample_platform (JArr [JObj [], JBool True]) fresh_chat
                   = (st', Returns)"
    using r odd_response_ok(2) p by blast
  moreover have "\<exists>st'. renderSuggestions sample_platform (JArr [JStr (js ''Yes'')]) fresh_chat
                   = (st', Returns)"
    using r odd_response_ok(2) l by blast
  ultimately show ?thesis using odd_response_ok by auto
qed

lemma format_ok: "substitutions (concat (map entity (js ''ok''))) = js ''ok''"
  by code_simp

lemma unconvertible_quantity:
  "part_cards sample_platform
     (take 3 [JObj [(js ''quantity_on_hand'', JObj [(js ''toString'', JNum (Fin 1))])]])
     = Inl TypeError"
  by code_simp

text \<open>
  C8 as it is written fails on values that the handler may receive: a label that is
  no string, a part that is \<^verbatim>\<open>null\<close>, a quantity that is an object with an own
  \<^verbatim>\<open>toString\<close> property. Each of them throws a TypeError.
\<close>

theorem rendering_throws_counterexample:
  "renderSuggestions sample_platform (JArr [JNum (Fin 1)]) fresh_chat
     = (fresh_chat, Throws TypeError)
   \<and> displayParts sample_platform (JArr [JNull]) fresh_chat = (fresh_chat, Throws TypeError)
   \<and> displayParts sample_platform
        (JArr [JObj [(js ''quantity_on_hand'', JObj [(js ''toString'', JNum (Fin 1))])]])
        fresh_chat = (fresh_chat, Throws TypeError)
   \<and> handleServerResponse sample_platform
        (JObj [(js ''reply'', JStr (js ''ok'')), (js ''suggestions'', JArr [JNum (Fin 1)])])
        fresh_chat
       = (fresh_chat\<lparr>messages := [createMessageElement ''bot'' (js ''ok'')]\<rparr>, Throws TypeError)"
proof (intro conjI)
  show "renderSuggestions sample_platform (JArr [JNum (Fin 1)]) fresh_chat
     = (fresh_chat, Throws TypeError)"
    by (simp add: renderSuggestions_def default_arg_def suggestion_button_def bindE_def)
  show "displayParts sample_platform (JArr [JNull]) fresh_chat = (fresh_chat, Throws TypeError)"
    by (simp add: displayParts_array part_card_def bindE_def)
  show "displayParts sample_platform
        (JArr [JObj [(js ''quantity_on_hand'', JObj [(js ''toString'', JNum (Fin 1))])]])
        fresh_chat = (fresh_chat, Throws TypeError)"
    by (simp only: displayParts_array unconvertible_quantity) simp
  have f: "field [(js ''reply'', JStr (js ''ok'')), (js ''suggestions'', JArr [JNum (Fin 1)])] ''reply''
             = JStr (js ''ok'')"
    "field [(js ''reply'', JStr (js ''ok'')), (js ''suggestions'', JArr [JNum (Fin 1)])] ''type''
             = JUndefined"
    "field [(js ''reply'', JStr (js ''ok'')), (js ''suggestions'', JArr [JNum (Fin 1)])] ''data''
             = JUndefined"
    "field [(js ''reply'', JStr (js ''ok'')), (js ''suggestions'', JArr [JNum (Fin 1)])] ''suggestions''
             = JArr [JNum (Fin 1)]"
    by code_simp+
  show "handleServerResponse sample_platform
        (JObj [(js ''reply'', JStr (js ''ok'')), (js ''suggestions'', JArr [JNum (Fin 1)])])
        fresh_chat
       = (fresh_chat\<lparr>messages := [createMessageElement ''bot'' (js ''ok'')]\<rparr>, Throws TypeError)"
    unfolding handleServerResponse_object f
    by (simp add: addMessage_string format_ok and_then_def isArray_def js_nonempty
        renderSuggestions_def default_arg_def suggestion_button_def bindE_def fresh_chat_def)
qed

subsection \<open>The fallback message\<close>

lemma format_fallback: "substitutions (concat (map entity fallback_text)) = fallback_text"
  by code_simp

lemma format_connection_error:
  "substitutions (concat (map entity connection_error_text)) = connection_error_text"
  by code_simp

lemma renderSuggestions_appends:
  assumes "labels_ok v"
  shows "\<exists>ms. renderSuggestions P v st = (st\<lparr>messages := messages st @ ms\<rparr>, Returns)"
proof (cases v)
  case (JArr xs)
  then obtain ls where "xs = map JStr ls"
    using assms strings_map_JStr by (auto simp: labels_ok_def)
  then have "renderSuggestions P v st = (st\<lparr>messages := messages st @ chips P ls\<rparr>, Returns)"
    using JArr renderSuggestions_chips by simp
  then show ?thesis by (rule exI)
next
  case JUndefined
  then have "renderSuggestions P v st = (st\<lparr>messages := messages st @ []\<rparr>, Returns)"
    by (simp add: renderSuggestions_def default_arg_def)
  then show ?thesis by (rule exI)
next
  case JNull
  then have "renderSuggestions P v st = (st\<lparr>messages := messages st @ []\<rparr>, Returns)"
    by (simp add: renderSuggestions_def default_arg_def)
  then show ?thesis by (rule exI)
next
  case (JBool b)
  then have "renderSuggestions P v st = (st\<lparr>messages := messages st @ []\<rparr>, Returns)"
    by (simp add: renderSuggestions_def default_arg_def)
  then show ?thesis by (rule exI)
next
  case (JNum n)
  then have "renderSuggestions P v st = (st\<lparr>messages := messages st @ []\<rparr>, Returns)"
    by (simp add: renderSuggestions_def default_arg_def)
  then show ?thesis by (rule exI)
next
  case (JStr s)
  then have "renderSuggestions P v st = (st\<lparr>messages := messages st @ []\<rparr>, Returns)"
    by (simp add: renderSuggestions_def default_arg_def)
  then show ?thesis by (rule exI)
next
  case (JObj kvs)
  then have "renderSuggestions P v st = (st\<lparr>messages := messages st @ []\<rparr>, Returns)"
    by (simp add: renderSuggestions_def default_arg_def)
  then show ?thesis by (rule exI)
qed

lemma handle_without_reply_and_data:
  assumes "map_of kvs (js ''reply'') = None" and "map_of kvs (js ''data'') = None"
    and "renderSuggestions P (field kvs ''suggestions'') st
           = (st\<lparr>messages := messages st @ ms\<rparr>, Returns)"
  shows "handleServerResponse P (JObj kvs) st =
           (st\<lparr>messages := messages st @ ms @ [createMessageElement ''bot'' fallback_text],
               messageCount := Suc (messageCount st)\<rparr>, Returns)"
proof -
  have f: "field kvs ''reply'' = JUndefined" "field kvs ''data'' = JUndefined"
    using assms(1,2) by (simp_all add: field_def)
  show ?thesis
    unfolding handleServerResponse_object f
    by (simp add: and_then_def isArray_def assms(3) addMessage_string format_fallback)
qed

text \<open>
  C7, as the code has it. For a response object without \<^verbatim>\<open>reply\<close> and \<^verbatim>\<open>data\<close>
  whose suggestions, when they are an array, are strings, the handler appends the
  chips (if any) and then the fallback message, counts the message and returns; the
  continuation of \<^verbatim>\<open>sendMessage\<close> hands that state on, with no toast and no
  connection-error message. The empty object gives the fallback message alone.
\<close>

theorem fallback_without_reply_and_data:
  assumes "map_of kvs (js ''reply'') = None" and "map_of kvs (js ''data'') = None"
    and "labels_ok (field kvs ''suggestions'')"
  shows "\<exists>ms. renderSuggestions P (field kvs ''suggestions'') st
                = (st\<lparr>messages := messages st @ ms\<rparr>, Returns)
              \<and> handleServerResponse P (JObj kvs) st =
                  (st\<lparr>messages := messages st @ ms @ [createMessageElement ''bot'' fallback_text],
                      messageCount := Suc (messageCount st)\<rparr>, Returns)
              \<and> body_settled P 200 (Some (JObj kvs)) st =
                  (st\<lparr>messages := messages st @ ms @ [createMessageElement ''bot'' fallback_text],
                      messageCount := Suc (messageCount st)\<rparr>, Returns)
              \<and> handleServerResponse P (JObj []) st =
                  (st\<lparr>messages := messages st @ [createMessageElement ''bot'' fallback_text],
                      messageCount := Suc (messageCount st)\<rparr>, Returns)"
proof -
  obtain ms where r: "renderSuggestions P (field kvs ''suggestions'') st
                = (st\<lparr>messages := messages st @ ms\<rparr>, Returns)"
    using renderSuggestions_appends [OF assms(3)] by blast
  have h: "handleServerResponse P (JObj kvs) st =
                  (st\<lparr>messages := messages st @ ms @ [createMessageElement ''bot'' fallback_text],
                      messageCount := Suc (messageCount st)\<rparr>, Returns)"
    using handle_without_reply_and_data [OF assms(1,2) r] .
  then have b: "body_settled P 200 (Some (JObj kvs)) st =
                  (st\<lparr>messages := messages st @ ms @ [createMessageElement ''bot'' fallback_text],
                      messageCount := Suc (messageCount st)\<rparr>, Returns)"
    by (simp add: body_settled_def)
  have "renderSuggestions P (field [] ''suggestions'') st
          = (st\<lparr>messages := messages st @ []\<rparr>, Returns)"
    by (simp add: field_def renderSuggestions_def default_arg_def)
  then have e: "handleServerResponse P (JObj []) st =
                  (st\<lparr>messages := messages st @ [] @ [createMessageElement ''bot'' fallback_text],
                      messageCount := Suc (messageCount st)\<rparr>, Returns)"
    by (intro handle_without_reply_and_data) simp_all
  from r h b e show ?thesis by auto
qed

theorem fallback_without_reply_and_data_witness:
  "map_of [(js ''suggestions'', JArr [JStr (js ''Yes'')])] (js ''reply'') = None
   \<and> map_of [(js ''suggestions'', JArr [JStr (js ''Yes'')])] (js ''data'') = None
   \<and> labels_ok (field [(js ''suggestions'', JArr [JStr (js ''Yes'')])] ''suggestions'')
   \<and> handleServerResponse sample_platform (JObj [(js ''suggestions'', JArr [JStr (js ''Yes'')])])
        fresh_chat =
       (fresh_chat\<lparr>messages := chips sample_platform [js ''Yes'']
                                  @ [createMessageElement ''bot'' fallback_text],
                    messageCount := 1\<rparr>, Returns)
   \<and> handleServerResponse sample_platform (JObj []) fresh_chat =
       (fresh_chat\<lparr>messages := [createMessageElement ''bot'' fallback_text],
                    messageCount := 1\<rparr>, Returns)"
proof -
  have a: "map_of [(js ''suggestions'', JArr [JStr (js ''Yes'')])] (js ''reply'') = None"
    "map_of [(js ''suggestions'', JArr [JStr (js ''Yes'')])] (js ''data'') = None"
    "labels_ok (field [(js ''suggestions'', JArr [JStr (js ''Yes'')])] ''suggestions'')"
    by code_simp+
  have f: "field [(js ''suggestions'', JArr [JStr (js ''Yes'')])] ''suggestions''
             = JArr (map JStr [js ''Yes''])"
    by (simp add: field_def)
  from fallback_without_reply_and_data [OF a, of sample_platform fresh_chat]
  obtain ms where
    r: "renderSuggestions sample_platform
          (field [(js ''suggestions'', JArr [JStr (js ''Yes'')])] ''suggestions'') fresh_chat
          = (fresh_chat\<lparr>messages := messages fresh_chat @ ms\<rparr>, Returns)"
    and h: "handleServerResponse sample_platform
              (JObj [(js ''suggestions'', JArr [JStr (js ''Yes'')])]) fresh_chat =
              (fresh_chat\<lparr>messages := messages fresh_chat @ ms
                                         @ [createMessageElement ''bot'' fallback_text],
                           messageCount := Suc (messageCount fresh_chat)\<rparr>, Returns)"
    and e: "handleServerResponse sample_platform (JObj []) fresh_chat =
              (fresh_chat\<lparr>messages := messages fresh_chat
                                         @ [createMessageElement ''bot'' fallback_text],
                           messageCount := Suc (messageCount fresh_chat)\<rparr>, Returns)"
    by blast
  have m: "messages fresh_chat = []" and c: "messageCount fresh_chat = 0"
    by (simp_all add: fresh_chat_def)
  have "ms = chips sample_platform [js ''Yes'']"
    using r unfolding f renderSuggestions_chips m
    by (simp add: fresh_chat_def)
  then show ?thesis using a h e m c by simp
qed

text \<open>
  C7 as it is written fails on a response without \<^verbatim>\<open>reply\<close> and \<^verbatim>\<open>data\<close> whose
  suggestions hold a number: the handler throws before it reaches the fallback, and
  the continuation of \<^verbatim>\<open>sendMessage\<close> reports a connection error with a toast.
\<close>

theorem fallback_counterexample:
  "map_of [(js ''suggestions'', JArr [JNum (Fin 1)])] (js ''reply'') = None
   \<and> map_of [(js ''suggestions'', JArr [JNum (Fin 1)])] (js ''data'') = None
   \<and> handleServerResponse sample_platform (JObj [(js ''suggestions'', JArr [JNum (Fin 1)])])
        fresh_chat = (fresh_chat, Throws TypeError)
   \<and> body_settled sample_platform 200 (Some (JObj [(js ''suggestions'', JArr [JNum (Fin 1)])]))
        fresh_chat =
       (fresh_chat\<lparr>messages := [createMessageElement ''bot'' connection_error_text],
                    toasts := [(js ''Network error - Is the backend running?'', ''error'')]\<rparr>,
        Returns)"
proof -
  have a: "map_of [(js ''suggestions'', JArr [JNum (Fin 1)])] (js ''reply'') = None"
    "map_of [(js ''suggestions'', JArr [JNum (Fin 1)])] (js ''data'') = None"
    by code_simp+
  have f: "field [(js ''suggestions'', JArr [JNum (Fin 1)])] ''reply'' = JUndefined"
    "field [(js ''suggestions'', JArr [JNum (Fin 1)])] ''type'' = JUndefined"
    "field [(js ''suggestions'', JArr [JNum (Fin 1)])] ''data'' = JUndefined"
    "field [(js ''suggestions'', JArr [JNum (Fin 1)])] ''suggestions'' = JArr [JNum (Fin 1)]"
    by code_simp+
  have h: "handleServerResponse sample_platform (JObj [(js ''suggestions'', JArr [JNum (Fin 1)])])
        fresh_chat = (fresh_chat, Throws TypeError)"
    unfolding handleServerResponse_object f
    by (simp add: and_then_def isArray_def renderSuggestions_def default_arg_def
        suggestion_button_def bindE_def)
  have "body_settled sample_platform 200 (Some (JObj [(js ''suggestions'', JArr [JNum (Fin 1)])]))
        fresh_chat =
       (fresh_chat\<lparr>messages := [createMessageElement ''bot'' connection_error_text],
                    toasts := [(js ''Network error - Is the backend running?'', ''error'')]\<rparr>,
        Returns)"
  proof -
    have "body_settled sample_platform 200
            (Some (JObj [(js ''suggestions'', JArr [JNum (Fin 1)])])) fresh_chat
          = network_error sample_platform fresh_chat"
      by (simp add: body_settled_def h)
    moreover have "network_error sample_platform fresh_chat =
       (fresh_chat\<lparr>messages := [createMessageElement ''bot'' connection_error_text],
                    toasts := [(js ''Network error - Is the backend running?'', ''error'')]\<rparr>,
        Returns)"
      by (simp add: network_error_def hideTyping_def addMessage_string
          format_connection_error and_then_def showToast_def fresh_chat_def)
    ultimately show ?thesis by simp
  qed
  with a h show ?thesis by simp
qed

subsection \<open>The session identifier\<close>

lemma restore_new:
  assumes "\<not> readable ls \<or> map_of (items ls) sessionKey = None
           \<or> map_of (items ls) sessionKey = Some []"
  shows "restoreOrCreateSessionId now random36 ls =
           (new_session_id now random36,
            if writable ls
            then ls\<lparr>items := (sessionKey, new_session_id now random36) # items ls\<rparr>
            else ls)"
  using assms by (auto simp: restoreOrCreateSessionId_def new_session_id_def Let_def)

text \<open>
  C9, as the code has it. When no token can be read (reading throws, the key is
  missing or the stored string is empty), the result is \<^verbatim>\<open>"session_"\<close>, the time in
  milliseconds, \<^verbatim>\<open>"_"\<close> and the characters 2 to 9 of the random number in base 36:
  at most 8 of them, 8 when that string has 10 characters or more, and digits of base
  36 when the string holds such digits after \<^verbatim>\<open>"0."\<close>. The token is stored when writing
  works; when it throws, the storage is as before and the token is returned all the
  same.
\<close>

theorem new_session_token:
  assumes "\<not> readable ls \<or> map_of (items ls) sessionKey = None
           \<or> map_of (items ls) sessionKey = Some []"
  shows "fst (restoreOrCreateSessionId now random36 ls)
           = js ''session_'' @ int_toString now @ js ''_'' @ take 8 (drop 2 random36)
         \<and> length (take 8 (drop 2 random36)) = min 8 (length random36 - 2)
         \<and> (10 \<le> length random36 \<longrightarrow> length (take 8 (drop 2 random36)) = 8)
         \<and> (list_all is_base36 (drop 2 random36) \<longrightarrow> list_all is_base36 (take 8 (drop 2 random36)))
         \<and> (writable ls \<longrightarrow>
               snd (restoreOrCreateSessionId now random36 ls)
                 = ls\<lparr>items := (sessionKey, fst (restoreOrCreateSessionId now random36 ls)) # items ls\<rparr>
               \<and> map_of (items (snd (restoreOrCreateSessionId now random36 ls))) sessionKey
                   = Some (fst (restoreOrCreateSessionId now random36 ls)))
         \<and> (\<not> writable ls \<longrightarrow> snd (restoreOrCreateSessionId now random36 ls) = ls)"
proof -
  have b: "list_all is_base36 (drop 2 random36) \<longrightarrow> list_all is_base36 (take 8 (drop 2 random36))"
    using set_take_subset [of 8 "drop 2 random36"] by (auto simp: list_all_iff)
  have l: "length (take 8 (drop 2 random36)) = min 8 (length random36 - 2)"
    by simp
  have k: "10 \<le> length random36 \<longrightarrow> length (take 8 (drop 2 random36)) = 8"
    by auto
  have r: "fst (restoreOrCreateSessionId now random36 ls)
           = js ''session_'' @ int_toString now @ js ''_'' @ take 8 (drop 2 random36)"
    by (simp add: restore_new [OF assms] new_session_id_def)
  have w: "writable ls \<longrightarrow>
               snd (restoreOrCreateSessionId now random36 ls)
                 = ls\<lparr>items := (sessionKey, fst (restoreOrCreateSessionId now random36 ls)) # items ls\<rparr>
               \<and> map_of (items (snd (restoreOrCreateSessionId now random36 ls))) sessionKey
                   = Some (fst (restoreOrCreateSessionId now random36 ls))"
    by (simp add: restore_new [OF assms])
  have n: "\<not> writable ls \<longrightarrow> snd (restoreOrCreateSessionId now random36 ls) = ls"
    by (simp add: restore_new [OF assms])
  from r l k b w n show ?thesis by blast
qed

lemma now_digits: "int_toString 1700000000000 = js ''1700000000000''"
  by (simp add: int_toString_def digits.simps js_def)

theorem new_session_token_witness:
  "map_of (items \<lparr>readable = True, writable = True, items = []\<rparr>) sessionKey = None
   \<and> restoreOrCreateSessionId 1700000000000 (js ''0.4fzyo82mvyr'')
        \<lparr>readable = True, writable = True, items = []\<rparr>
       = (js ''session_1700000000000_4fzyo82m'',
          \<lparr>readable = True, writable = True,
           items = [(sessionKey, js ''session_1700000000000_4fzyo82m'')]\<rparr>)
   \<and> restoreOrCreateSessionId 1700000000000 (js ''0.4fzyo82mvyr'')
        \<lparr>readable = False, writable = False, items = []\<rparr>
       = (js ''session_1700000000000_4fzyo82m'', \<lparr>readable = False, writable = False, items = []\<rparr>)"
proof -
  have e: "js ''session_'' @ int_toString 1700000000000 @ js ''_''
             @ take 8 (drop 2 (js ''0.4fzyo82mvyr''))
           = js ''session_1700000000000_4fzyo82m''"
    by (simp add: now_digits) (simp add: js_def)
  have 1: "restoreOrCreateSessionId 1700000000000 (js ''0.4fzyo82mvyr'')
        \<lparr>readable = True, writable = True, items = []\<rparr>
       = (js ''session_1700000000000_4fzyo82m'',
          \<lparr>readable = True, writable = True,
           items = [(sessionKey, js ''session_1700000000000_4fzyo82m'')]\<rparr>)"
    using new_session_token [of "\<lparr>readable = True, writable = True, items = []\<rparr>"
        1700000000000 "js ''0.4fzyo82mvyr''"]
    unfolding e by (simp add: prod_eq_iff)
  have 2: "restoreOrCreateSessionId 1700000000000 (js ''0.4fzyo82mvyr'')
        \<lparr>readable = False, writable = False, items = []\<rparr>
       = (js ''session_1700000000000_4fzyo82m'', \<lparr>readable = False, writable = False, items = []\<rparr>)"
    using new_session_token [of "\<lparr>readable = False, writable = False, items = []\<rparr>"
        1700000000000 "js ''0.4fzyo82mvyr''"]
    unfolding e by (simp add: prod_eq_iff)
  from 1 2 show ?thesis by simp
qed

text \<open>
  C9 as it is written fails when the random number has fewer than 8 digits in base
  36: \<^verbatim>\<open>Math.random()\<close> may return 0.5, which \<^verbatim>\<open>toString(36)\<close> writes \<^verbatim>\<open>"0.i"\<close>, and
  the suffix is the single character \<^verbatim>\<open>i\<close>.
\<close>

theorem short_suffix_counterexample:
  "restoreOrCreateSessionId 1700000000000 (js ''0.i'')
        \<lparr>readable = False, writable = False, items = []\<rparr>
     = (js ''session_1700000000000_i'', \<lparr>readable = False, writable = False, items = []\<rparr>)
   \<and> length (take 8 (drop 2 (js ''0.i''))) = 1"
  by (simp add: restoreOrCreateSessionId_def now_digits) (simp add: js_def)

end
